theory Spec2Isabelle
  imports Complex_Main "HOL-Library.Word" "HOL-Library.Log_Nat"
begin

section \<open>RecolorCalculator: recolouring the masked area of an image\<close>

text \<open>
  The development follows \<^verbatim>\<open>mediapipe/calculators/image/recolor_calculator.cc\<close>.
  A mask image says where a configured colour is laid over an input image; the luminance of
  the input pixel scales the blending weight.

  Numbers. A \<^verbatim>\<open>uchar\<close> is an \<open>8 word\<close>. A \<^verbatim>\<open>float\<close> or \<^verbatim>\<open>double\<close> value is the real
  number it stands for, and every operation on such values gives the exact result rounded
  to the nearest number of the format, \<open>to_float\<close> or \<open>to_double\<close>, as the source's types
  say. The exact blend of the specification, without any rounding, is defined apart.
\<close>

subsection \<open>Pixels and vectors\<close>

type_synonym uchar = "8 word"

text \<open>\<^verbatim>\<open>cv::Vec3b\<close>, \<^verbatim>\<open>cv::Vec3f\<close> and the shader's \<^verbatim>\<open>vec3\<close>, \<^verbatim>\<open>vec4\<close>.\<close>

type_synonym Vec3b = "uchar \<times> uchar \<times> uchar"
type_synonym Vec3f = "real \<times> real \<times> real"
type_synonym vec3 = "real \<times> real \<times> real"
type_synonym vec4 = "real \<times> real \<times> real \<times> real"

text \<open>Component \<open>k\<close> of a three-component vector (\<^verbatim>\<open>v[k]\<close>, \<open>k < 3\<close>).\<close>

fun Vec3_nth :: "'a \<times> 'a \<times> 'a \<Rightarrow> nat \<Rightarrow> 'a" where
  "Vec3_nth (a, b, c) k = (if k = 0 then a else if k = 1 then b else c)"

text \<open>The conversion \<^verbatim>\<open>cv::Vec3f color1 = input_mat.at<cv::Vec3b>(i, j)\<close>.\<close>

fun Vec3f_of_Vec3b :: "Vec3b \<Rightarrow> Vec3f" where
  "Vec3f_of_Vec3b (a, b, c) = (real (unat a), real (unat b), real (unat c))"

subsection \<open>Floating-point numbers\<close>

text \<open>
  Rounding to the nearest integer, a tie to the even one: the rule of the processor's
  default rounding mode, which the arithmetic and \<^verbatim>\<open>lrint\<close> follow.
\<close>

definition rint :: "real \<Rightarrow> int" where
  "rint v =
     (let f = \<lfloor>v\<rfloor>; d = v - of_int f
      in if d < 1 / 2 then f
         else if 1 / 2 < d then f + 1
         else if even f then f else f + 1)"

text \<open>
  For \<open>x > 0\<close>, the exponent \<open>e\<close> with \<open>2 ^ e \<le> x < 2 ^ (e + 1)\<close>; \<open>bitlen n\<close> is the number
  of binary digits of \<open>n\<close>.
\<close>

definition floor_log2 :: "real \<Rightarrow> int" where
  "floor_log2 x = (if 1 \<le> x then bitlen \<lfloor>x\<rfloor> - 1 else - bitlen (\<lceil>1 / x\<rceil> - 1))"

text \<open>
  Rounding a real number to the nearest one with a significand of \<open>p\<close> binary digits, a
  tie to the even significand: a \<^verbatim>\<open>float\<close> has 24 digits and a \<^verbatim>\<open>double\<close> 53. The
  range of the exponent is not modelled: the values of the pixel computation are 0 or lie
  far inside it, so that nothing overflows or becomes subnormal.
\<close>

definition round_to_precision :: "nat \<Rightarrow> real \<Rightarrow> real" where
  "round_to_precision p x =
     (if x = 0 then 0
      else (let e = floor_log2 \<bar>x\<bar> - int p + 1
            in of_int (rint (x / 2 powi e)) * 2 powi e))"

definition to_float :: "real \<Rightarrow> real" where
  "to_float x = round_to_precision 24 x"

definition to_double :: "real \<Rightarrow> real" where
  "to_double x = round_to_precision 53 x"

text \<open>
  The operators of \<^verbatim>\<open>cv::Vec3f\<close>: the product with a \<^verbatim>\<open>double\<close>, computed in
  \<^verbatim>\<open>double\<close> and stored as \<^verbatim>\<open>float\<close>, the product with a \<^verbatim>\<open>float\<close>, and the sum, each
  componentwise.
\<close>

fun Vec3f_times_double :: "Vec3f \<Rightarrow> real \<Rightarrow> Vec3f" where
  "Vec3f_times_double (a, b, c) alpha =
     (to_float (to_double (a * alpha)), to_float (to_double (b * alpha)),
      to_float (to_double (c * alpha)))"

fun Vec3f_times_float :: "Vec3f \<Rightarrow> real \<Rightarrow> Vec3f" where
  "Vec3f_times_float (a, b, c) alpha =
     (to_float (a * alpha), to_float (b * alpha), to_float (c * alpha))"

fun Vec3f_plus :: "Vec3f \<Rightarrow> Vec3f \<Rightarrow> Vec3f" where
  "Vec3f_plus (a, b, c) (x, y, z) = (to_float (a + x), to_float (b + y), to_float (c + z))"

subsection \<open>Conversion of a floating-point channel to 8 bits\<close>

text \<open>
  Modelled from the spec: the conversion of the mixed colour to the 8-bit output pixel,
  \<^verbatim>\<open>cv::Vec3b mix_color = ...\<close>, whose code (OpenCV's \<^verbatim>\<open>saturate_cast<uchar>\<close>)
  is not among the source files. The spec says that rounding to the 8-bit integer output
  happens after the mix, and its example rounds to the nearest integer. OpenCV rounds with
  \<^verbatim>\<open>cvRound\<close>, to the nearest integer and a tie to the even one, and then clamps the
  integer to \<open>0..255\<close>.
\<close>

definition cvRound :: "real \<Rightarrow> int" where
  "cvRound v = rint v"

definition saturate_cast_uchar_int :: "int \<Rightarrow> uchar" where
  "saturate_cast_uchar_int v =
     (if 0 \<le> v \<and> v \<le> 255 then word_of_int v else if 0 < v then 255 else 0)"

definition saturate_cast_uchar :: "real \<Rightarrow> uchar" where
  "saturate_cast_uchar v = saturate_cast_uchar_int (cvRound v)"

fun Vec3b_of_Vec3f :: "Vec3f \<Rightarrow> Vec3b" where
  "Vec3b_of_Vec3f (a, b, c) =
     (saturate_cast_uchar a, saturate_cast_uchar b, saturate_cast_uchar c)"

subsection \<open>The body of the CPU loop\<close>

text \<open>
  The body of the double loop of \<^verbatim>\<open>RenderCpu\<close>, for the pixel \<open>(i, j)\<close>:
  \<^verbatim>\<open>
      float weight = mask_full.at<uchar>(i, j) * (1.0 / 255.0);
      cv::Vec3f color1 = input_mat.at<cv::Vec3b>(i, j);
      cv::Vec3f color2 = {color_[0], color_[1], color_[2]};
      float luminance =
          (color1[0] * 0.299 + color1[1] * 0.587 + color1[2] * 0.114) / 255;
      float mix_value = weight * luminance;
      cv::Vec3b mix_color = color1 * (1.0 - mix_value) + color2 * mix_value;
      output_mat.at<cv::Vec3b>(i, j) = mix_color;
  \<close>
  The member \<^verbatim>\<open>color_\<close> holds the three components that \<^verbatim>\<open>LoadOptions\<close> pushed;
  it is a triple here, the field \<open>color\<close> of the calculator, and the vector \<^verbatim>\<open>color2\<close> in
  the loop body. The constants \<^verbatim>\<open>1.0 / 255.0\<close>, \<^verbatim>\<open>0.299\<close>, \<^verbatim>\<open>0.587\<close> and \<^verbatim>\<open>0.114\<close>
  are \<^verbatim>\<open>double\<close> values, the expressions that hold one are computed in \<^verbatim>\<open>double\<close>, and
  \<^verbatim>\<open>weight\<close>, \<^verbatim>\<open>luminance\<close> and \<^verbatim>\<open>mix_value\<close> are stored as \<^verbatim>\<open>float\<close>.
\<close>

definition weight_of_mask :: "uchar \<Rightarrow> real" where
  "weight_of_mask m = to_float (to_double (real (unat m) * to_double (1 / 255)))"

definition luminance :: "Vec3f \<Rightarrow> real" where
  "luminance color1 =
     to_float
       (to_double
          (to_double
             (to_double
                (to_double (Vec3_nth color1 0 * to_double 0.299)
                 + to_double (Vec3_nth color1 1 * to_double 0.587))
              + to_double (Vec3_nth color1 2 * to_double 0.114))
           / 255))"

definition mix_value :: "real \<Rightarrow> Vec3f \<Rightarrow> real" where
  "mix_value weight color1 = to_float (weight * luminance color1)"

text \<open>The mixed colour as a \<^verbatim>\<open>cv::Vec3f\<close>, before the conversion to 8 bits.\<close>

definition mix_color_f :: "Vec3f \<Rightarrow> real \<Rightarrow> Vec3f \<Rightarrow> Vec3f" where
  "mix_color_f color2 weight color1 =
     Vec3f_plus (Vec3f_times_double color1 (to_double (1 - mix_value weight color1)))
                (Vec3f_times_float color2 (mix_value weight color1))"

text \<open>The loop body from the weight on, and the whole body from the mask byte on.\<close>

definition mix_color :: "Vec3f \<Rightarrow> real \<Rightarrow> Vec3b \<Rightarrow> Vec3b" where
  "mix_color color2 weight px =
     Vec3b_of_Vec3f (mix_color_f color2 weight (Vec3f_of_Vec3b px))"

definition RenderCpu_pixel :: "Vec3f \<Rightarrow> uchar \<Rightarrow> Vec3b \<Rightarrow> Vec3b" where
  "RenderCpu_pixel color2 m px = mix_color color2 (weight_of_mask m) px"

subsection \<open>Options and the calculator\<close>

text \<open>
  \<^verbatim>\<open>RecolorCalculatorOptions::MaskChannel\<close>, with the three values that the switch of
  \<^verbatim>\<open>InitGpu\<close> names.
\<close>

datatype MaskChannel = UNKNOWN | RED | ALPHA

text \<open>
  What the GL handle \<^verbatim>\<open>program_\<close> stands for once \<^verbatim>\<open>InitGpu\<close> has run: the
  text pasted for \<^verbatim>\<open>MASK_COMPONENT\<close> into the fragment shader, and the uniform
  \<^verbatim>\<open>recolor\<close>.
\<close>

record GlProgram =
  MASK_COMPONENT :: string
  recolor :: vec3

text \<open>The members of the class; \<open>program = None\<close> is the handle \<open>0\<close>.\<close>

record RecolorCalculator =
  initialized :: bool
  color :: Vec3f
  mask_channel :: MaskChannel
  use_gpu :: bool
  program :: "GlProgram option"

subsection \<open>Images\<close>

text \<open>
  The formats that the class comment admits: a mask is Gray, RGB or RGBA, an image RGB or
  RGBA. An image is its format, its size and its bytes by row, column and channel.
\<close>

datatype ImageFormat = GRAY8 | SRGB | SRGBA

fun NumberOfChannels :: "ImageFormat \<Rightarrow> nat" where
  "NumberOfChannels GRAY8 = 1"
| "NumberOfChannels SRGB = 3"
| "NumberOfChannels SRGBA = 4"

record ImageFrame =
  Format :: ImageFormat
  Width :: nat
  Height :: nat
  PixelData :: "nat \<Rightarrow> nat \<Rightarrow> nat \<Rightarrow> uchar"

text \<open>\<^verbatim>\<open>cv::Mat\<close> with 8-bit channels: \<open>mat_at m i j k\<close> is channel \<open>k\<close> at row \<open>i\<close>, column \<open>j\<close>.\<close>

record Mat =
  rows :: nat
  cols :: nat
  channels :: nat
  mat_at :: "nat \<Rightarrow> nat \<Rightarrow> nat \<Rightarrow> uchar"

definition MatView :: "ImageFrame \<Rightarrow> Mat" where
  "MatView img =
     \<lparr>rows = Height img, cols = Width img, channels = NumberOfChannels (Format img),
      mat_at = PixelData img\<rparr>"

text \<open>\<^verbatim>\<open>cv::split\<close>: one single-channel plane for each channel.\<close>

definition cv_split :: "Mat \<Rightarrow> Mat list" where
  "cv_split m =
     map (\<lambda>c. \<lparr>rows = rows m, cols = cols m, channels = 1,
               mat_at = (\<lambda>i j k. mat_at m i j c)\<rparr>) [0..<channels m]"

text \<open>
  \<^verbatim>\<open>channels[n]\<close> on a \<^verbatim>\<open>std::vector\<close>: an index past the end is undefined behaviour
  in C++, and \<open>None\<close> here.
\<close>

definition vector_at :: "'a list \<Rightarrow> nat \<Rightarrow> 'a option" where
  "vector_at v n = (if n < length v then Some (v ! n) else None)"

text \<open>\<^verbatim>\<open>m.at<cv::Vec3b>(i, j)\<close>, read and written.\<close>

definition Vec3b_at :: "Mat \<Rightarrow> nat \<Rightarrow> nat \<Rightarrow> Vec3b" where
  "Vec3b_at m i j = (mat_at m i j 0, mat_at m i j 1, mat_at m i j 2)"

definition Vec3b_set :: "Mat \<Rightarrow> nat \<Rightarrow> nat \<Rightarrow> Vec3b \<Rightarrow> Mat" where
  "Vec3b_set m i j v =
     m\<lparr>mat_at := (\<lambda>i' j' k. if i' = i \<and> j' = j \<and> k < 3 then Vec3_nth v k
                             else mat_at m i' j' k)\<rparr>"

subsection \<open>The calculator context\<close>

text \<open>
  A GPU buffer is an RGBA image of 8-bit channels. The context holds the packet of each
  input stream at the current timestamp (\<open>None\<close> when \<^verbatim>\<open>IsEmpty()\<close>), the timestamp,
  and the packets added to each output stream so far. The field \<open>allocations\<close> is a ghost
  counter of the output images and GPU textures created.
\<close>

record GpuBuffer =
  width :: nat
  height :: nat
  texels :: "nat \<Rightarrow> nat \<Rightarrow> nat \<Rightarrow> uchar"

record CalculatorContext =
  IMAGE :: "ImageFrame option"
  MASK :: "ImageFrame option"
  IMAGE_GPU :: "GpuBuffer option"
  MASK_GPU :: "GpuBuffer option"
  InputTimestamp :: int
  Outputs_IMAGE :: "(ImageFrame \<times> int) list"
  Outputs_IMAGE_GPU :: "(GpuBuffer \<times> int) list"
  allocations :: nat

text \<open>
  What a call comes to: the two statuses of the source, and the two ways it can go wrong
  without a status: \<^verbatim>\<open>Get\<close> on an empty packet, which is fatal, and an index past the
  end of a vector.
\<close>

datatype result = OkStatus | RetCheckFailure | EmptyPacketGet | IndexOutOfRange

subsection \<open>RenderCpu\<close>

text \<open>
  The choice of the mask plane:
  \<^verbatim>\<open>
  if (mask_mat.channels() > 1) {
    std::vector<cv::Mat> channels;
    cv::split(mask_mat, channels);
    if (mask_channel_ == mediapipe::RecolorCalculatorOptions_MaskChannel_ALPHA)
      mask_mat = channels[3];
    else
      mask_mat = channels[0];
  }
  \<close>
\<close>

definition RenderCpu_mask_plane :: "MaskChannel \<Rightarrow> Mat \<Rightarrow> Mat option" where
  "RenderCpu_mask_plane sel mask_mat =
     (if 1 < channels mask_mat
      then (if sel = ALPHA then vector_at (cv_split mask_mat) 3
            else vector_at (cv_split mask_mat) 0)
      else Some mask_mat)"

text \<open>The double loop over the rows and columns of the output.\<close>

definition RenderCpu_row :: "Vec3f \<Rightarrow> Mat \<Rightarrow> Mat \<Rightarrow> nat \<Rightarrow> nat \<Rightarrow> Mat \<Rightarrow> Mat" where
  "RenderCpu_row color2 mask_full input_mat n i output_mat =
     fold (\<lambda>j out. Vec3b_set out i j
              (RenderCpu_pixel color2 (mat_at mask_full i j 0) (Vec3b_at input_mat i j)))
          [0..<n] output_mat"

definition RenderCpu_loop :: "Vec3f \<Rightarrow> Mat \<Rightarrow> Mat \<Rightarrow> Mat \<Rightarrow> Mat" where
  "RenderCpu_loop color2 mask_full input_mat output_mat =
     fold (RenderCpu_row color2 mask_full input_mat (cols output_mat))
          [0..<rows output_mat] output_mat"

text \<open>
  \<^verbatim>\<open>RenderCpu\<close>. The parameter \<open>resize\<close> is \<^verbatim>\<open>cv::resize\<close>, which is OpenCV's. The
  output image is a new image of the input's format and size; its bytes are those the loop
  leaves in the view \<^verbatim>\<open>output_mat\<close> of it. The loop writes every byte of a three-channel
  image, so that what the new image holds before the loop, \<open>0\<close> here, does not show.
\<close>

definition RenderCpu ::
  "(Mat \<Rightarrow> nat \<times> nat \<Rightarrow> Mat) \<Rightarrow> RecolorCalculator \<Rightarrow> CalculatorContext
     \<Rightarrow> result \<times> CalculatorContext" where
  "RenderCpu resize calc cc =
     (case MASK cc of
        None \<Rightarrow> (OkStatus, cc)
      | Some mask_img \<Rightarrow>
          (case IMAGE cc of
             None \<Rightarrow> (EmptyPacketGet, cc)
           | Some input_img \<Rightarrow>
               (let input_mat = MatView input_img; mask_mat = MatView mask_img
                in if channels input_mat \<noteq> 3 then (RetCheckFailure, cc)
                   else (case RenderCpu_mask_plane (mask_channel calc) mask_mat of
                           None \<Rightarrow> (IndexOutOfRange, cc)
                         | Some plane \<Rightarrow>
                             (let mask_full = resize plane (cols input_mat, rows input_mat);
                                  output_img = \<lparr>Format = Format input_img,
                                                Width = cols input_mat,
                                                Height = rows input_mat,
                                                PixelData = (\<lambda>i j k. 0)\<rparr>;
                                  output_mat = RenderCpu_loop (color calc) mask_full input_mat
                                                 (MatView output_img)
                              in (OkStatus,
                                  cc\<lparr>Outputs_IMAGE := Outputs_IMAGE cc @
                                        [(output_img\<lparr>PixelData := mat_at output_mat\<rparr>,
                                          InputTimestamp cc)],
                                     allocations := allocations cc + 1\<rparr>))))))"

subsection \<open>The GPU path\<close>

text \<open>
  The switch of \<^verbatim>\<open>InitGpu\<close> that chooses the text of \<^verbatim>\<open>MASK_COMPONENT\<close>, and the
  uniform \<^verbatim>\<open>recolor\<close>, set to \<^verbatim>\<open>color_[k] / 255.0\<close>.
\<close>

fun InitGpu_mask_component :: "MaskChannel \<Rightarrow> string" where
  "InitGpu_mask_component UNKNOWN = ''r''"
| "InitGpu_mask_component RED = ''r''"
| "InitGpu_mask_component ALPHA = ''a''"

definition InitGpu_program :: "RecolorCalculator \<Rightarrow> GlProgram" where
  "InitGpu_program calc =
     \<lparr>MASK_COMPONENT = InitGpu_mask_component (mask_channel calc),
      recolor = (Vec3_nth (color calc) 0 / 255, Vec3_nth (color calc) 1 / 255,
                 Vec3_nth (color calc) 2 / 255)\<rparr>"

text \<open>
  The shading language: the component of a \<^verbatim>\<open>vec4\<close> that a one-letter colour selector
  names, the built-in \<^verbatim>\<open>mix\<close>, and the value that sampling an 8-bit texture gives for a
  texel, each byte divided by 255.
\<close>

fun vec4_nth :: "vec4 \<Rightarrow> nat \<Rightarrow> real" where
  "vec4_nth (x, y, z, w) k = (if k = 0 then x else if k = 1 then y else if k = 2 then z else w)"

definition selector_index :: "string \<Rightarrow> nat option" where
  "selector_index s =
     (if s = ''r'' then Some 0 else if s = ''g'' then Some 1
      else if s = ''b'' then Some 2 else if s = ''a'' then Some 3 else None)"

definition glsl_mix :: "real \<Rightarrow> real \<Rightarrow> real \<Rightarrow> real" where
  "glsl_mix x y a = x * (1 - a) + y * a"

fun texel_of_bytes :: "uchar \<times> uchar \<times> uchar \<times> uchar \<Rightarrow> vec4" where
  "texel_of_bytes (r, g, b, a) =
     (real (unat r) / 255, real (unat g) / 255, real (unat b) / 255, real (unat a) / 255)"

text \<open>
  The fragment shader, for the two sampled values \<^verbatim>\<open>weight\<close> and \<^verbatim>\<open>color1\<close>:
  \<^verbatim>\<open>
      vec4 color2 = vec4(recolor, 1.0);
      float luminance = dot(color1.rgb, vec3(0.299, 0.587, 0.114));
      float mix_value = weight.MASK_COMPONENT * luminance;
      fragColor = mix(color1, color2, mix_value);
  \<close>
  \<open>None\<close> when the text of \<^verbatim>\<open>MASK_COMPONENT\<close> names no component.
\<close>

definition frag_main :: "GlProgram \<Rightarrow> vec4 \<Rightarrow> vec4 \<Rightarrow> vec4 option" where
  "frag_main prog weight color1 =
     (case selector_index (MASK_COMPONENT prog) of
        None \<Rightarrow> None
      | Some c \<Rightarrow>
          (let color2 = (Vec3_nth (recolor prog) 0, Vec3_nth (recolor prog) 1,
                         Vec3_nth (recolor prog) 2, 1);
               luminance = vec4_nth color1 0 * 0.299 + vec4_nth color1 1 * 0.587
                           + vec4_nth color1 2 * 0.114;
               mix_value = vec4_nth weight c * luminance
           in Some (glsl_mix (vec4_nth color1 0) (vec4_nth color2 0) mix_value,
                    glsl_mix (vec4_nth color1 1) (vec4_nth color2 1) mix_value,
                    glsl_mix (vec4_nth color1 2) (vec4_nth color2 2) mix_value,
                    glsl_mix (vec4_nth color1 3) (vec4_nth color2 3) mix_value)))"

text \<open>
  \<^verbatim>\<open>RenderGpu\<close>. The parameter \<open>GlRender\<close> is the draw of the quad with the program
  bound, from the frame and mask textures into the destination texture; it is OpenGL's.
  Three textures are created for a frame.
\<close>

definition RenderGpu ::
  "(GlProgram option \<Rightarrow> GpuBuffer \<Rightarrow> GpuBuffer \<Rightarrow> GpuBuffer) \<Rightarrow> RecolorCalculator
     \<Rightarrow> CalculatorContext \<Rightarrow> result \<times> CalculatorContext" where
  "RenderGpu GlRender calc cc =
     (case MASK_GPU cc of
        None \<Rightarrow> (OkStatus, cc)
      | Some mask_buffer \<Rightarrow>
          (case IMAGE_GPU cc of
             None \<Rightarrow> (EmptyPacketGet, cc)
           | Some input_buffer \<Rightarrow>
               (let output = GlRender (program calc) input_buffer mask_buffer
                in (OkStatus,
                    cc\<lparr>Outputs_IMAGE_GPU := Outputs_IMAGE_GPU cc @
                          [(output, InputTimestamp cc)],
                       allocations := allocations cc + 3\<rparr>))))"

subsection \<open>The blend of the specification\<close>

text \<open>
  The blend engine as the specification words it, on a source pixel, a weight and a target
  colour, all on the scale \<open>0..255\<close>, in exact arithmetic:
  \<^verbatim>\<open>
  luminance = (sourcePixel.R*0.299 + sourcePixel.G*0.587 + sourcePixel.B*0.114) / 255
  mixAmount = weight * luminance
  result    = sourcePixel * (1 - mixAmount) + targetColor * mixAmount
  \<close>
\<close>

definition spec_luminance :: "Vec3f \<Rightarrow> real" where
  "spec_luminance sourcePixel =
     (case sourcePixel of (R, G, B) \<Rightarrow> (R * 0.299 + G * 0.587 + B * 0.114) / 255)"

definition spec_mixAmount :: "Vec3f \<Rightarrow> real \<Rightarrow> real" where
  "spec_mixAmount sourcePixel weight = weight * spec_luminance sourcePixel"

definition spec_blend :: "Vec3f \<Rightarrow> real \<Rightarrow> Vec3f \<Rightarrow> Vec3f" where
  "spec_blend sourcePixel weight targetColor =
     (case (sourcePixel, targetColor) of
        ((R, G, B), (tR, tG, tB)) \<Rightarrow>
          (let mixAmount = spec_mixAmount sourcePixel weight
           in (R * (1 - mixAmount) + tR * mixAmount,
               G * (1 - mixAmount) + tG * mixAmount,
               B * (1 - mixAmount) + tB * mixAmount)))"

subsection \<open>Concrete inputs\<close>

text \<open>
  Inputs on which the definitions are evaluated: an image whose bytes are all the same, an
  image whose pixels are all the same with the listed byte in each channel, the calculator
  as \<^verbatim>\<open>Open\<close> leaves it on the CPU path for a colour and a mask channel, a
  context with the given packets at timestamp \<open>0\<close> and nothing added to the outputs yet,
  and a resize that returns the plane as it is.
\<close>

definition uniform_frame :: "ImageFormat \<Rightarrow> nat \<Rightarrow> nat \<Rightarrow> uchar \<Rightarrow> ImageFrame" where
  "uniform_frame fmt w h b = \<lparr>Format = fmt, Width = w, Height = h, PixelData = (\<lambda>i j k. b)\<rparr>"

definition channels_frame :: "ImageFormat \<Rightarrow> nat \<Rightarrow> nat \<Rightarrow> uchar list \<Rightarrow> ImageFrame" where
  "channels_frame fmt w h bs =
     \<lparr>Format = fmt, Width = w, Height = h,
      PixelData = (\<lambda>i j k. if k < length bs then bs ! k else 0)\<rparr>"

definition opened_calculator :: "Vec3f \<Rightarrow> MaskChannel \<Rightarrow> RecolorCalculator" where
  "opened_calculator c sel =
     \<lparr>initialized = False, color = c, mask_channel = sel, use_gpu = False, program = None\<rparr>"

definition cpu_context :: "ImageFrame option \<Rightarrow> ImageFrame option \<Rightarrow> CalculatorContext" where
  "cpu_context input_img mask_img =
     \<lparr>IMAGE = input_img, MASK = mask_img, IMAGE_GPU = None, MASK_GPU = None, InputTimestamp = 0,
      Outputs_IMAGE = [], Outputs_IMAGE_GPU = [], allocations = 0\<rparr>"

definition same_size :: "Mat \<Rightarrow> nat \<times> nat \<Rightarrow> Mat" where
  "same_size m dsize = m"

section \<open>Properties\<close>

subsection \<open>Bytes and rounding to an integer\<close>

lemma unat_uchar_lt: "unat (m :: uchar) < 256"
  using unsigned_less [of m, where 'a = nat] by simp

lemma uint_uchar_le: "uint (m :: uchar) \<le> 255"
  using unsigned_less [of m, where 'a = int] by simp

lemma real_unat_uchar_range: "0 \<le> real (unat (m :: uchar)) \<and> real (unat m) \<le> 255"
proof
  show "0 \<le> real (unat m)" by (rule of_nat_0_le_iff)
  have "unat m \<le> 255" using unat_uchar_lt [of m] by arith
  then have "real (unat m) \<le> real 255" by (rule of_nat_mono)
  then show "real (unat m) \<le> 255" by simp
qed

lemma rint_of_int: "rint (of_int n) = n"
  by (simp add: rint_def)

lemma rint_near: "\<bar>of_int (rint v) - v\<bar> \<le> 1 / 2"
proof -
  define f where "f = \<lfloor>v\<rfloor>"
  have a: "of_int f \<le> v" and b: "v < of_int f + 1" unfolding f_def by linarith+
  have c: "rint v = (if v - of_int f < 1 / 2 then f
                        else if 1 / 2 < v - of_int f then f + 1
                        else if even f then f else f + 1)"
    by (simp add: rint_def Let_def f_def)
  show ?thesis
  proof (cases "v - of_int f < 1 / 2")
    case True
    then have "rint v = f" using c by simp
    then show ?thesis using a True by simp
  next
    case False
    note nlt = this
    show ?thesis
    proof (cases "1 / 2 < v - of_int f")
      case True
      then have "rint v = f + 1" using c nlt by simp
      then show ?thesis using b True by simp
    next
      case False
      then have h: "v - of_int f = 1 / 2" using nlt by linarith
      have "rint v = f \<or> rint v = f + 1" using c by auto
      then show ?thesis using h by auto
    qed
  qed
qed

lemma rint_between:
  assumes "of_int a - 1 / 2 < v" and "v < of_int b + 1 / 2"
  shows "a \<le> rint v \<and> rint v \<le> b"
proof -
  have n: "\<bar>of_int (rint v) - v\<bar> \<le> 1 / 2" by (rule rint_near)
  have "(of_int a :: real) - 1 < of_int (rint v)" using n assms(1) by linarith
  then have "(of_int (a - 1) :: real) < of_int (rint v)" by simp
  then have lo: "a - 1 < rint v" by (simp only: of_int_less_iff)
  have "(of_int (rint v) :: real) < of_int b + 1" using n assms(2) by linarith
  then have "(of_int (rint v) :: real) < of_int (b + 1)" by simp
  then have hi: "rint v < b + 1" by (simp only: of_int_less_iff)
  show ?thesis using lo hi by linarith
qed

subsection \<open>Rounding to a floating-point format\<close>

lemma floor_log2_lower:
  assumes "0 < x"
  shows "2 powi (floor_log2 x) \<le> x"
proof (cases "1 \<le> x")
  case True
  define n where "n = \<lfloor>x\<rfloor>"
  have n: "0 < n" unfolding n_def using True by simp
  have b: "2 ^ nat (bitlen n - 1) \<le> n" using bitlen_bounds [OF n] by simp
  have nn: "0 \<le> bitlen n - 1" using n by (simp add: bitlen_alt_def)
  have "(2 :: real) powi (bitlen n - 1) = 2 ^ nat (bitlen n - 1)"
    using nn by (simp add: power_int_def)
  also have "\<dots> = of_int (2 ^ nat (bitlen n - 1))" by simp
  also have "\<dots> \<le> of_int n" using b by (simp only: of_int_le_iff)
  also have "\<dots> \<le> x" unfolding n_def by simp
  finally show ?thesis using True by (simp add: floor_log2_def n_def)
next
  case False
  define y where "y = 1 / x"
  define m where "m = \<lceil>y\<rceil> - 1"
  have y: "1 < y" unfolding y_def using assms False by simp
  have m: "0 < m" unfolding m_def using y by (simp add: less_ceiling_iff)
  have b: "m < 2 ^ nat (bitlen m)" using bitlen_bounds [OF m] by simp
  have "y \<le> of_int (m + 1)" unfolding m_def by simp
  also have "\<dots> \<le> of_int (2 ^ nat (bitlen m))"
    using b by (simp only: of_int_le_iff)
  finally have "y \<le> 2 ^ nat (bitlen m)" by simp
  then have "1 / 2 ^ nat (bitlen m) \<le> x"
    unfolding y_def using assms by (simp add: field_simps)
  moreover have "(2 :: real) powi (- bitlen m) = 1 / 2 ^ nat (bitlen m)"
    using bitlen_nonneg [of m] by (simp add: power_int_def field_simps)
  ultimately show ?thesis using False by (simp add: floor_log2_def y_def m_def)
qed

lemma floor_log2_upper:
  assumes "0 < x"
  shows "x < 2 powi (floor_log2 x + 1)"
proof (cases "1 \<le> x")
  case True
  define n where "n = \<lfloor>x\<rfloor>"
  have n: "0 < n" unfolding n_def using True by simp
  have b: "n < 2 ^ nat (bitlen n)" using bitlen_bounds [OF n] by simp
  have nn: "0 \<le> bitlen n" by (rule bitlen_nonneg)
  have "x < of_int (n + 1)" unfolding n_def by linarith
  also have "\<dots> \<le> of_int (2 ^ nat (bitlen n))"
  proof -
    have "n + 1 \<le> 2 ^ nat (bitlen n)" using b by simp
    then show ?thesis by (simp only: of_int_le_iff)
  qed
  also have "\<dots> = (2 :: real) powi (bitlen n)"
    using nn by (simp add: power_int_def)
  finally show ?thesis using True by (simp add: floor_log2_def n_def)
next
  case False
  define y where "y = 1 / x"
  define m where "m = \<lceil>y\<rceil> - 1"
  have y: "1 < y" unfolding y_def using assms False by simp
  have m: "0 < m" unfolding m_def using y by (simp add: less_ceiling_iff)
  have b: "2 ^ nat (bitlen m - 1) \<le> m" using bitlen_bounds [OF m] by simp
  have pos: "0 < bitlen m" using m by (simp add: bitlen_alt_def)
  have "(2 :: real) ^ nat (bitlen m - 1) = of_int (2 ^ nat (bitlen m - 1))" by simp
  also have "\<dots> \<le> of_int m" using b by (simp only: of_int_le_iff)
  also have "\<dots> < y" unfolding m_def by linarith
  finally have "2 ^ nat (bitlen m - 1) < 1 / x" unfolding y_def .
  then have "x < 1 / 2 ^ nat (bitlen m - 1)"
    using assms by (simp add: field_simps)
  moreover have "(2 :: real) powi (- bitlen m + 1) = 1 / 2 ^ nat (bitlen m - 1)"
  proof -
    have "- bitlen m + 1 = - int (nat (bitlen m - 1))" using pos by simp
    then show ?thesis by (simp only: power_int_minus power_int_of_nat) (simp add: field_simps)
  qed
  ultimately show ?thesis using False by (simp add: floor_log2_def y_def m_def)
qed

lemma round_to_precision_zero: "round_to_precision p 0 = 0"
  by (simp add: round_to_precision_def)

lemma round_to_precision_error:
  "\<bar>round_to_precision p x - x\<bar> \<le> \<bar>x\<bar> * 2 powi (- int p)"
proof (cases "x = 0")
  case True
  then show ?thesis by (simp add: round_to_precision_def)
next
  case False
  define e where "e = floor_log2 \<bar>x\<bar> - int p + 1"
  define s where "s = (2 :: real) powi e"
  define q where "q = x / s"
  have s: "0 < s" unfolding s_def by simp
  have r: "round_to_precision p x = of_int (rint q) * s"
    using False by (simp add: round_to_precision_def Let_def e_def s_def q_def)
  have x: "x = q * s" unfolding q_def using s by simp
  have "\<bar>of_int (rint q) * s - q * s\<bar> = \<bar>of_int (rint q) - q\<bar> * s"
    using s by (simp add: abs_mult left_diff_distrib [symmetric])
  also have "\<dots> \<le> 1 / 2 * s" using rint_near [of q] s by (intro mult_right_mono) simp_all
  finally have d: "\<bar>round_to_precision p x - x\<bar> \<le> 1 / 2 * s" unfolding r using x by simp
  have "e = floor_log2 \<bar>x\<bar> + (1 - int p)" unfolding e_def by simp
  moreover have "(2 :: real) powi (a + b) = 2 powi a * 2 powi b" for a b
    by (rule power_int_add) simp
  ultimately have "s = 2 powi (floor_log2 \<bar>x\<bar>) * 2 powi (1 - int p)"
    unfolding s_def by simp
  also have "\<dots> \<le> \<bar>x\<bar> * 2 powi (1 - int p)"
    using floor_log2_lower [of "\<bar>x\<bar>"] False
    by (intro mult_right_mono) (simp_all add: less_imp_le)
  finally have "1 / 2 * s \<le> \<bar>x\<bar> * (1 / 2 * 2 powi (1 - int p))" by simp
  moreover have "1 / 2 * (2 :: real) powi (1 - int p) = 2 powi (- int p)"
    by (simp add: power_int_diff power_int_minus field_simps)
  ultimately show ?thesis using d by simp
qed


lemma round_to_precision_nat:
  assumes "n < 2 ^ p"
  shows "round_to_precision p (real n) = real n"
proof (cases "n = 0")
  case True
  then show ?thesis by (simp add: round_to_precision_zero)
next
  case False
  define b where "b = bitlen (int n)"
  have b: "b \<le> int p" unfolding b_def using assms by (simp add: bitlen_le_iff_power)
  define j where "j = nat (int p - b)"
  have a: "\<bar>real n\<bar> = real n" by simp
  have fl: "floor_log2 (real n) = b - 1"
    using False by (simp add: floor_log2_def b_def)
  have e: "floor_log2 (real n) - int p + 1 = - int j"
    unfolding fl j_def using b by simp
  have s: "(2 :: real) powi (- int j) = 1 / 2 ^ j"
    by (simp add: power_int_minus field_simps)
  have q: "real n / (1 / 2 ^ j) = of_int (int n * 2 ^ j)" by simp
  have nz: "real n \<noteq> 0" using False by simp
  have "round_to_precision p (real n) = of_int (rint (real n / (1 / 2 ^ j))) * (1 / 2 ^ j)"
    unfolding round_to_precision_def Let_def a e s using nz by (simp only: if_False)
  also have "\<dots> = of_int (int n * 2 ^ j) * (1 / 2 ^ j)"
    unfolding q rint_of_int ..
  also have "\<dots> = real n" by simp
  finally show ?thesis .
qed

lemma to_float_uchar: "to_float (real (unat (m :: uchar))) = real (unat m)"
proof -
  have "unat m < 2 ^ 24" using unsigned_less [of m, where 'a = nat] by simp
  then show ?thesis unfolding to_float_def by (rule round_to_precision_nat)
qed

lemma to_double_uchar: "to_double (real (unat (m :: uchar))) = real (unat m)"
proof -
  have "unat m < 2 ^ 53" using unsigned_less [of m, where 'a = nat] by simp
  then show ?thesis unfolding to_double_def by (rule round_to_precision_nat)
qed

lemma to_float_0: "to_float 0 = 0"
  by (simp add: to_float_def round_to_precision_zero)

lemma to_double_1: "to_double 1 = 1"
  using round_to_precision_nat [of 1 53] by (simp add: to_double_def)

lemma to_double_0: "to_double 0 = 0"
  by (simp add: to_double_def round_to_precision_zero)


subsection \<open>The floating-point values against the exact blend\<close>

text \<open>
  Every rounding changes a value by at most the fraction \<open>2 ^ (- p)\<close> of it. Followed
  through the loop body, on a pixel of bytes, a weight in \<open>[0, 1]\<close> and a colour component
  in \<open>[0, 255]\<close>, this keeps \<^verbatim>\<open>weight\<close> and \<^verbatim>\<open>luminance\<close> within \<open>6 / 10 ^ 8\<close> of their
  exact values, \<^verbatim>\<open>mix_value\<close> within \<open>19 / 10 ^ 8\<close>, and each channel of the mixed colour
  within \<open>1 / 5000\<close> of the exact blend.
\<close>

lemma round_to_precision_close:
  assumes "\<bar>x - x0\<bar> \<le> a" and "\<bar>x0\<bar> \<le> M"
  shows "\<bar>round_to_precision p x - x0\<bar> \<le> a + (M + a) / 2 ^ p"
proof -
  have d: "(2 :: real) powi (- int p) = 1 / 2 ^ p"
    by (simp add: power_int_minus field_simps)
  have x: "\<bar>x\<bar> \<le> M + a" using assms by linarith
  have "\<bar>round_to_precision p x - x\<bar> \<le> \<bar>x\<bar> * (1 / 2 ^ p)"
    using round_to_precision_error [of p x] unfolding d .
  also have "\<dots> \<le> (M + a) * (1 / 2 ^ p)"
    using x by (intro mult_right_mono) simp_all
  finally have "\<bar>round_to_precision p x - x\<bar> \<le> (M + a) / 2 ^ p" by simp
  then show ?thesis using assms(1) by linarith
qed

lemma to_double_close:
  assumes "\<bar>x - x0\<bar> \<le> a" and "\<bar>x0\<bar> \<le> M" and "a + (M + a) / 2 ^ 53 \<le> c"
  shows "\<bar>to_double x - x0\<bar> \<le> c"
  using round_to_precision_close [OF assms(1,2), of 53] assms(3)
  unfolding to_double_def by linarith

lemma to_float_close:
  assumes "\<bar>x - x0\<bar> \<le> a" and "\<bar>x0\<bar> \<le> M" and "a + (M + a) / 2 ^ 24 \<le> c"
  shows "\<bar>to_float x - x0\<bar> \<le> c"
  using round_to_precision_close [OF assms(1,2), of 24] assms(3)
  unfolding to_float_def by linarith

lemma mult_close:
  fixes x y x0 y0 :: real
  assumes "\<bar>x - x0\<bar> \<le> a" and "\<bar>y - y0\<bar> \<le> b" and "\<bar>x0\<bar> \<le> M" and "\<bar>y0\<bar> \<le> N"
    and "a * (N + b) + M * b \<le> c"
  shows "\<bar>x * y - x0 * y0\<bar> \<le> c"
proof -
  have e: "x * y - x0 * y0 = (x - x0) * y + x0 * (y - y0)" by (simp add: algebra_simps)
  have y: "\<bar>y\<bar> \<le> N + b" using assms(2,4) by linarith
  have a: "0 \<le> a" using assms(1) by linarith
  have M: "0 \<le> M" using assms(3) by linarith
  have "\<bar>(x - x0) * y\<bar> \<le> a * (N + b)"
    unfolding abs_mult using assms(1) y a by (intro mult_mono) simp_all
  moreover have "\<bar>x0 * (y - y0)\<bar> \<le> M * b"
    unfolding abs_mult using assms(2,3) M by (intro mult_mono) simp_all
  ultimately show ?thesis unfolding e using assms(5) by linarith
qed

lemma byte_mult_close:
  fixes y y0 :: real
  assumes "\<bar>y - y0\<bar> \<le> b" and "0 \<le> s" and "s \<le> 255" and "255 * b \<le> c"
  shows "\<bar>s * y - s * y0\<bar> \<le> c"
proof -
  have "\<bar>s * y - s * y0\<bar> = s * \<bar>y - y0\<bar>"
    using assms(2) by (simp add: abs_mult right_diff_distrib [symmetric])
  also have "\<dots> \<le> 255 * b" using assms by (intro mult_mono) simp_all
  finally show ?thesis using assms(4) by linarith
qed

lemma byte_times_le:
  fixes s k :: real
  assumes "0 \<le> s" and "s \<le> 255" and "0 \<le> k" and "255 * k \<le> M"
  shows "\<bar>s * k\<bar> \<le> M"
proof -
  have "s * k \<le> 255 * k" using assms by (intro mult_right_mono) simp_all
  moreover have "0 \<le> s * k" using assms by simp
  ultimately show ?thesis using assms(4) by simp
qed

lemma luminance_close:
  "\<bar>luminance (Vec3f_of_Vec3b px) - spec_luminance (Vec3f_of_Vec3b px)\<bar> \<le> 6 / 100000000"
proof -
  obtain r g b where px: "px = (r, g, b)" by (cases px) auto
  define x y z where "x = real (unat r)" and "y = real (unat g)" and "z = real (unat b)"
  have r: "0 \<le> x" "x \<le> 255" "0 \<le> y" "y \<le> 255" "0 \<le> z" "z \<le> 255"
    unfolding x_def y_def z_def
    using real_unat_uchar_range [of r] real_unat_uchar_range [of g] real_unat_uchar_range [of b]
    by simp_all
  have v: "Vec3f_of_Vec3b px = (x, y, z)" by (simp add: px x_def y_def z_def)
  define k1 k2 k3 where "k1 = to_double 0.299" and "k2 = to_double 0.587"
    and "k3 = to_double 0.114"
  have k1: "\<bar>k1 - 0.299\<bar> \<le> 1 / 10000000000000000" unfolding k1_def
    by (rule to_double_close [where a = 0 and M = "3 / 5"]) simp_all
  have k2: "\<bar>k2 - 0.587\<bar> \<le> 1 / 10000000000000000" unfolding k2_def
    by (rule to_double_close [where a = 0 and M = "3 / 5"]) simp_all
  have k3: "\<bar>k3 - 0.114\<bar> \<le> 1 / 10000000000000000" unfolding k3_def
    by (rule to_double_close [where a = 0 and M = "3 / 5"]) simp_all
  define e1 e2 e3 where "e1 = x * 0.299" and "e2 = y * 0.587" and "e3 = z * 0.114"
  have e1: "\<bar>e1\<bar> \<le> 77" unfolding e1_def by (rule byte_times_le [OF r(1,2)]) simp_all
  have e2: "\<bar>e2\<bar> \<le> 150" unfolding e2_def by (rule byte_times_le [OF r(3,4)]) simp_all
  have e3: "\<bar>e3\<bar> \<le> 30" unfolding e3_def by (rule byte_times_le [OF r(5,6)]) simp_all
  have e0: "0 \<le> e1" "0 \<le> e2" "0 \<le> e3" unfolding e1_def e2_def e3_def using r by simp_all
  have sum: "e1 + e2 + e3 \<le> 255" unfolding e1_def e2_def e3_def using r by (simp; linarith)
  define t1 t2 t3 where "t1 = to_double (x * k1)" and "t2 = to_double (y * k2)"
    and "t3 = to_double (z * k3)"
  have t1: "\<bar>t1 - e1\<bar> \<le> 4 / 100000000000000" unfolding t1_def
  proof (rule to_double_close [where a = "3 / 100000000000000" and M = 77])
    show "\<bar>x * k1 - e1\<bar> \<le> 3 / 100000000000000"
      unfolding e1_def by (rule byte_mult_close [OF k1 r(1,2)]) simp
  qed (simp_all add: e1)
  have t2: "\<bar>t2 - e2\<bar> \<le> 5 / 100000000000000" unfolding t2_def
  proof (rule to_double_close [where a = "3 / 100000000000000" and M = 150])
    show "\<bar>y * k2 - e2\<bar> \<le> 3 / 100000000000000"
      unfolding e2_def by (rule byte_mult_close [OF k2 r(3,4)]) simp
  qed (simp_all add: e2)
  have t3: "\<bar>t3 - e3\<bar> \<le> 4 / 100000000000000" unfolding t3_def
  proof (rule to_double_close [where a = "3 / 100000000000000" and M = 30])
    show "\<bar>z * k3 - e3\<bar> \<le> 3 / 100000000000000"
      unfolding e3_def by (rule byte_mult_close [OF k3 r(5,6)]) simp
  qed (simp_all add: e3)
  define s1 where "s1 = to_double (t1 + t2)"
  have s1: "\<bar>s1 - (e1 + e2)\<bar> \<le> 20 / 100000000000000" unfolding s1_def
  proof (rule to_double_close [where a = "9 / 100000000000000" and M = 255])
    show "\<bar>t1 + t2 - (e1 + e2)\<bar> \<le> 9 / 100000000000000" using t1 t2 by linarith
    show "\<bar>e1 + e2\<bar> \<le> 255" using e0 sum by linarith
  qed simp
  define s2 where "s2 = to_double (s1 + t3)"
  have s2: "\<bar>s2 - (e1 + e2 + e3)\<bar> \<le> 30 / 100000000000000" unfolding s2_def
  proof (rule to_double_close [where a = "24 / 100000000000000" and M = 255])
    show "\<bar>s1 + t3 - (e1 + e2 + e3)\<bar> \<le> 24 / 100000000000000" using s1 t3 by linarith
    show "\<bar>e1 + e2 + e3\<bar> \<le> 255" using e0 sum by linarith
  qed simp
  define S where "S = e1 + e2 + e3"
  have S: "0 \<le> S" "S \<le> 255" "\<bar>s2 - S\<bar> \<le> 30 / 100000000000000"
    unfolding S_def using e0 sum s2 by simp_all
  define L0 where "L0 = S / 255"
  have L0: "\<bar>L0\<bar> \<le> 1" unfolding L0_def using S(1,2) by simp
  define dv where "dv = to_double (s2 / 255)"
  have dv: "\<bar>dv - L0\<bar> \<le> 40 / 100000000000000" unfolding dv_def
  proof (rule to_double_close [where a = "30 / 100000000000000" and M = 1])
    show "\<bar>s2 / 255 - L0\<bar> \<le> 30 / 100000000000000"
      using S(3) unfolding L0_def by linarith
    show "\<bar>L0\<bar> \<le> 1" by (rule L0)
  qed simp
  have "\<bar>to_float dv - L0\<bar> \<le> 6 / 100000000"
    by (rule to_float_close [OF dv L0]) simp
  moreover have "luminance (x, y, z) = to_float dv"
    by (simp add: luminance_def dv_def s2_def s1_def t1_def t2_def t3_def k1_def k2_def k3_def)
  moreover have "spec_luminance (x, y, z) = L0"
    by (simp add: spec_luminance_def L0_def S_def e1_def e2_def e3_def)
  ultimately show ?thesis unfolding v by simp
qed


lemma spec_luminance_range:
  "0 \<le> spec_luminance (Vec3f_of_Vec3b px) \<and> spec_luminance (Vec3f_of_Vec3b px) \<le> 1"
proof -
  obtain a b c where px: "px = (a, b, c)" by (cases px) auto
  define x y z where "x = real (unat a)" and "y = real (unat b)" and "z = real (unat c)"
  have r: "0 \<le> x" "x \<le> 255" "0 \<le> y" "y \<le> 255" "0 \<le> z" "z \<le> 255"
    unfolding x_def y_def z_def
    using real_unat_uchar_range [of a] real_unat_uchar_range [of b] real_unat_uchar_range [of c]
    by simp_all
  have "spec_luminance (Vec3f_of_Vec3b px) = (x * 0.299 + y * 0.587 + z * 0.114) / 255"
    by (simp add: px spec_luminance_def x_def y_def z_def)
  then show ?thesis using r by simp
qed

lemma spec_mixAmount_range:
  assumes "0 \<le> w0" and "w0 \<le> 1"
  shows "0 \<le> spec_mixAmount (Vec3f_of_Vec3b px) w0
         \<and> spec_mixAmount (Vec3f_of_Vec3b px) w0 \<le> 1"
proof -
  have l: "0 \<le> spec_luminance (Vec3f_of_Vec3b px)" "spec_luminance (Vec3f_of_Vec3b px) \<le> 1"
    using spec_luminance_range [of px] by simp_all
  have "w0 * spec_luminance (Vec3f_of_Vec3b px) \<le> 1 * 1"
    using assms l by (intro mult_mono) simp_all
  then show ?thesis using assms l by (simp add: spec_mixAmount_def)
qed

lemma weight_of_mask_close:
  "\<bar>weight_of_mask m - real (unat m) / 255\<bar> \<le> 6 / 100000000"
proof -
  define x where "x = real (unat m)"
  have r: "0 \<le> x" "x \<le> 255" unfolding x_def using real_unat_uchar_range [of m] by simp_all
  define c where "c = to_double (1 / 255)"
  have c: "\<bar>c - 1 / 255\<bar> \<le> 1 / 1000000000000000000" unfolding c_def
    by (rule to_double_close [where a = 0 and M = "1 / 255"]) simp_all
  define w0 where "w0 = x * (1 / 255)"
  have w0: "\<bar>w0\<bar> \<le> 1" unfolding w0_def using r by simp
  define q where "q = to_double (x * c)"
  have q: "\<bar>q - w0\<bar> \<le> 1 / 1000000000000000" unfolding q_def
  proof (rule to_double_close [where a = "3 / 10000000000000000" and M = 1])
    show "\<bar>x * c - w0\<bar> \<le> 3 / 10000000000000000"
      unfolding w0_def by (rule byte_mult_close [OF c r]) simp
  qed (simp_all add: w0)
  have "\<bar>to_float q - w0\<bar> \<le> 6 / 100000000"
    by (rule to_float_close [OF q w0]) simp
  moreover have "weight_of_mask m = to_float q"
    by (simp only: weight_of_mask_def q_def c_def x_def)
  moreover have "w0 = real (unat m) / 255" by (simp add: w0_def x_def)
  ultimately show ?thesis by simp
qed

lemma mix_value_close:
  assumes "\<bar>w - w0\<bar> \<le> 6 / 100000000" and "0 \<le> w0" and "w0 \<le> 1"
  shows "\<bar>mix_value w (Vec3f_of_Vec3b px) - spec_mixAmount (Vec3f_of_Vec3b px) w0\<bar>
           \<le> 19 / 100000000"
proof -
  define L where "L = luminance (Vec3f_of_Vec3b px)"
  define L0 where "L0 = spec_luminance (Vec3f_of_Vec3b px)"
  have L: "\<bar>L - L0\<bar> \<le> 6 / 100000000" unfolding L_def L0_def by (rule luminance_close)
  have L0: "\<bar>L0\<bar> \<le> 1" unfolding L0_def using spec_luminance_range [of px] by simp
  have w0: "\<bar>w0\<bar> \<le> 1" using assms(2,3) by simp
  have p: "\<bar>w * L - w0 * L0\<bar> \<le> 13 / 100000000"
    by (rule mult_close [OF assms(1) L w0 L0]) simp
  have m: "\<bar>w0 * L0\<bar> \<le> 1"
    using spec_mixAmount_range [OF assms(2,3), of px] by (simp add: spec_mixAmount_def L0_def)
  have "\<bar>to_float (w * L) - w0 * L0\<bar> \<le> 19 / 100000000"
    by (rule to_float_close [OF p m]) simp
  then show ?thesis by (simp add: mix_value_def spec_mixAmount_def L_def L0_def)
qed

lemma Vec3f_times_double_nth:
  "Vec3_nth (Vec3f_times_double v alpha) k = to_float (to_double (Vec3_nth v k * alpha))"
  by (cases v) simp

lemma Vec3f_times_float_nth:
  "Vec3_nth (Vec3f_times_float v alpha) k = to_float (Vec3_nth v k * alpha)"
  by (cases v) simp

lemma Vec3f_plus_nth:
  "Vec3_nth (Vec3f_plus u v) k = to_float (Vec3_nth u k + Vec3_nth v k)"
  by (cases u; cases v) simp

lemma mix_color_f_nth:
  "Vec3_nth (mix_color_f color2 weight color1) k =
     to_float
       (to_float (to_double (Vec3_nth color1 k * to_double (1 - mix_value weight color1)))
        + to_float (Vec3_nth color2 k * mix_value weight color1))"
  by (simp add: mix_color_f_def Vec3f_plus_nth Vec3f_times_double_nth Vec3f_times_float_nth)

lemma spec_blend_nth:
  "Vec3_nth (spec_blend sourcePixel weight targetColor) k =
     Vec3_nth sourcePixel k * (1 - spec_mixAmount sourcePixel weight)
     + Vec3_nth targetColor k * spec_mixAmount sourcePixel weight"
  by (cases sourcePixel; cases targetColor) (simp add: spec_blend_def Let_def)

lemma Vec3b_of_Vec3f_nth:
  "Vec3_nth (Vec3b_of_Vec3f v) k = saturate_cast_uchar (Vec3_nth v k)"
  by (cases v) simp

lemma Vec3f_of_Vec3b_nth:
  "Vec3_nth (Vec3f_of_Vec3b v) k = real (unat (Vec3_nth v k))"
  by (cases v) simp

lemma mix_color_f_close:
  assumes "\<bar>w - w0\<bar> \<le> 6 / 100000000" and "0 \<le> w0" and "w0 \<le> 1"
    and "0 \<le> Vec3_nth color2 k" and "Vec3_nth color2 k \<le> 255"
  shows "\<bar>Vec3_nth (mix_color_f color2 w (Vec3f_of_Vec3b px)) k
           - Vec3_nth (spec_blend (Vec3f_of_Vec3b px) w0 color2) k\<bar> \<le> 1 / 5000"
proof -
  define s where "s = Vec3_nth (Vec3f_of_Vec3b px) k"
  define t where "t = Vec3_nth color2 k"
  define mv where "mv = mix_value w (Vec3f_of_Vec3b px)"
  define mv0 where "mv0 = spec_mixAmount (Vec3f_of_Vec3b px) w0"
  have s: "0 \<le> s" "s \<le> 255"
    unfolding s_def Vec3f_of_Vec3b_nth using real_unat_uchar_range [of "Vec3_nth px k"] by simp_all
  have t: "0 \<le> t" "t \<le> 255" unfolding t_def using assms(4,5) by simp_all
  have mv: "\<bar>mv - mv0\<bar> \<le> 19 / 100000000"
    unfolding mv_def mv0_def by (rule mix_value_close [OF assms(1-3)])
  have mv0: "0 \<le> mv0" "mv0 \<le> 1"
    unfolding mv0_def using spec_mixAmount_range [OF assms(2,3), of px] by simp_all
  define u0 where "u0 = 1 - mv0"
  have u0: "0 \<le> u0" "u0 \<le> 1" unfolding u0_def using mv0 by simp_all
  define u1 where "u1 = to_double (1 - mv)"
  have u1: "\<bar>u1 - u0\<bar> \<le> 20 / 100000000" unfolding u1_def
  proof (rule to_double_close [where a = "19 / 100000000" and M = 1])
    show "\<bar>1 - mv - u0\<bar> \<le> 19 / 100000000" unfolding u0_def using mv by linarith
    show "\<bar>u0\<bar> \<le> 1" using u0 by simp
  qed simp
  define A0 where "A0 = s * u0"
  define B0 where "B0 = t * mv0"
  have A0: "0 \<le> A0" "A0 \<le> 255 * u0"
    unfolding A0_def using s u0 by (simp_all add: mult_right_mono)
  have B0: "0 \<le> B0" "B0 \<le> 255 * mv0"
    unfolding B0_def using t mv0 by (simp_all add: mult_right_mono)
  have "255 * u0 + 255 * mv0 = 255" unfolding u0_def by simp
  then have AB: "A0 + B0 \<le> 255" using A0(2) B0(2) by linarith
  define a1 where "a1 = to_double (s * u1)"
  have a1: "\<bar>a1 - A0\<bar> \<le> 52 / 1000000" unfolding a1_def
  proof (rule to_double_close [where a = "51 / 1000000" and M = 255])
    show "\<bar>s * u1 - A0\<bar> \<le> 51 / 1000000"
      unfolding A0_def by (rule byte_mult_close [OF u1 s]) simp
    show "\<bar>A0\<bar> \<le> 255" using A0 AB B0(1) by linarith
  qed simp
  define A where "A = to_float a1"
  have A: "\<bar>A - A0\<bar> \<le> 68 / 1000000" unfolding A_def
  proof (rule to_float_close [OF a1])
    show "\<bar>A0\<bar> \<le> 255" using A0 AB B0(1) by linarith
  qed simp
  define B where "B = to_float (t * mv)"
  have B: "\<bar>B - B0\<bar> \<le> 65 / 1000000" unfolding B_def
  proof (rule to_float_close [where a = "49 / 1000000" and M = 255])
    show "\<bar>t * mv - B0\<bar> \<le> 49 / 1000000"
      unfolding B0_def by (rule byte_mult_close [OF mv t]) simp
    show "\<bar>B0\<bar> \<le> 255" using B0 AB A0(1) by linarith
  qed simp
  have "\<bar>to_float (A + B) - (A0 + B0)\<bar> \<le> 1 / 5000"
  proof (rule to_float_close [where a = "133 / 1000000" and M = 255])
    show "\<bar>A + B - (A0 + B0)\<bar> \<le> 133 / 1000000" using A B by linarith
    show "\<bar>A0 + B0\<bar> \<le> 255" using A0(1) B0(1) AB by linarith
  qed simp
  moreover have "Vec3_nth (mix_color_f color2 w (Vec3f_of_Vec3b px)) k = to_float (A + B)"
    by (simp only: mix_color_f_nth A_def B_def a1_def u1_def s_def t_def mv_def)
  moreover have "Vec3_nth (spec_blend (Vec3f_of_Vec3b px) w0 color2) k = A0 + B0"
    by (simp only: spec_blend_nth A0_def B0_def u0_def s_def t_def mv0_def)
  ultimately show ?thesis by simp
qed


subsection \<open>Weight zero and full weight\<close>

lemma to_float_1: "to_float 1 = 1"
  using round_to_precision_nat [of 1 24] by (simp add: to_float_def)

lemma saturate_cast_uchar_of_uchar: "saturate_cast_uchar (real (unat m)) = m"
proof -
  have "real (unat m) = of_int (uint m)" by simp
  then have "rint (real (unat m)) = uint m"
    using rint_of_int [of "uint m"] by simp
  then show ?thesis
    using uint_uchar_le [of m]
    by (simp add: saturate_cast_uchar_def cvRound_def saturate_cast_uchar_int_def)
qed

lemma Vec3b_roundtrip: "Vec3b_of_Vec3f (Vec3f_of_Vec3b px) = px"
  by (cases px) (simp add: saturate_cast_uchar_of_uchar del: of_nat_unat)

lemma Vec3_eqI:
  assumes "Vec3_nth u 0 = Vec3_nth v 0" and "Vec3_nth u 1 = Vec3_nth v 1"
    and "Vec3_nth u 2 = Vec3_nth v 2"
  shows "u = v"
  using assms by (cases u; cases v) simp

lemma weight_of_mask_0: "weight_of_mask 0 = 0"
  by (simp add: weight_of_mask_def to_double_0 to_float_0)

lemma mix_color_f_weight_0:
  "mix_color_f color2 0 (Vec3f_of_Vec3b px) = Vec3f_of_Vec3b px"
proof (rule Vec3_eqI)
  have mv: "mix_value 0 (Vec3f_of_Vec3b px) = 0" by (simp add: mix_value_def to_float_0)
  have "Vec3_nth (mix_color_f color2 0 (Vec3f_of_Vec3b px)) k = Vec3_nth (Vec3f_of_Vec3b px) k"
    for k
    unfolding mix_color_f_nth mv Vec3f_of_Vec3b_nth
    by (simp add: to_double_1 to_double_uchar to_float_uchar to_float_0 del: of_nat_unat)
  then show "Vec3_nth (mix_color_f color2 0 (Vec3f_of_Vec3b px)) 0 = Vec3_nth (Vec3f_of_Vec3b px) 0"
    "Vec3_nth (mix_color_f color2 0 (Vec3f_of_Vec3b px)) 1 = Vec3_nth (Vec3f_of_Vec3b px) 1"
    "Vec3_nth (mix_color_f color2 0 (Vec3f_of_Vec3b px)) 2 = Vec3_nth (Vec3f_of_Vec3b px) 2"
    by blast+
qed

lemma mix_color_weight_0: "mix_color color2 0 px = px"
  by (simp add: mix_color_def mix_color_f_weight_0 Vec3b_roundtrip)

lemma RenderCpu_pixel_mask_0: "RenderCpu_pixel color2 0 px = px"
  by (simp add: RenderCpu_pixel_def weight_of_mask_0 mix_color_weight_0)


lemma weight_of_mask_255: "weight_of_mask 255 = 1"
  unfolding weight_of_mask_def by code_simp

lemma luminance_white_f: "luminance (255, 255, 255) = 1"
  unfolding luminance_def by code_simp


lemma mix_color_f_white:
  "mix_color_f (Vec3f_of_Vec3b t) 1 (Vec3f_of_Vec3b (255, 255, 255)) = Vec3f_of_Vec3b t"
proof (rule Vec3_eqI)
  have mv: "mix_value 1 (Vec3f_of_Vec3b (255, 255, 255)) = 1"
    by (simp add: mix_value_def luminance_white_f to_float_1)
  have "Vec3_nth (mix_color_f (Vec3f_of_Vec3b t) 1 (Vec3f_of_Vec3b (255, 255, 255))) k
      = Vec3_nth (Vec3f_of_Vec3b t) k" for k
    unfolding mix_color_f_nth mv Vec3f_of_Vec3b_nth
    by (simp add: to_double_0 to_float_uchar to_float_0 del: of_nat_unat)
  then show "Vec3_nth (mix_color_f (Vec3f_of_Vec3b t) 1 (Vec3f_of_Vec3b (255, 255, 255))) 0
      = Vec3_nth (Vec3f_of_Vec3b t) 0"
    "Vec3_nth (mix_color_f (Vec3f_of_Vec3b t) 1 (Vec3f_of_Vec3b (255, 255, 255))) 1
      = Vec3_nth (Vec3f_of_Vec3b t) 1"
    "Vec3_nth (mix_color_f (Vec3f_of_Vec3b t) 1 (Vec3f_of_Vec3b (255, 255, 255))) 2
      = Vec3_nth (Vec3f_of_Vec3b t) 2"
    by blast+
qed

lemma RenderCpu_pixel_white: "RenderCpu_pixel (Vec3f_of_Vec3b t) 255 (255, 255, 255) = t"
  unfolding RenderCpu_pixel_def weight_of_mask_255 mix_color_def mix_color_f_white
  by (rule Vec3b_roundtrip)



subsection \<open>The worked example\<close>

lemma saturate_cast_uchar_rint:
  assumes "- (1 / 2) < v" and "v < 255 + 1 / 2"
  shows "uint (saturate_cast_uchar v) = rint v"
proof -
  have "0 \<le> rint v \<and> rint v \<le> 255" using rint_between [of 0 v 255] assms by simp
  then show ?thesis
    by (simp add: saturate_cast_uchar_def cvRound_def saturate_cast_uchar_int_def
        uint_word_of_int)
qed

lemma saturate_cast_uchar_between:
  assumes "0 \<le> a" and "b \<le> 255" and "of_int a - 1 / 2 < v" and "v < of_int b + 1 / 2"
  shows "a \<le> uint (saturate_cast_uchar v) \<and> uint (saturate_cast_uchar v) \<le> b"
proof -
  have "(0 :: real) \<le> of_int a" "(of_int b :: real) \<le> 255" using assms(1,2) by simp_all
  then have "- (1 / 2) < v" "v < 255 + 1 / 2" using assms(3,4) by linarith+
  then have "uint (saturate_cast_uchar v) = rint v" by (rule saturate_cast_uchar_rint)
  then show ?thesis using rint_between [OF assms(3,4)] by simp
qed

lemma saturate_cast_uchar_near:
  assumes "- (1 / 2) < v" and "v < 255 + 1 / 2"
  shows "\<bar>real (unat (saturate_cast_uchar v)) - v\<bar> \<le> 1 / 2"
proof -
  have "uint (saturate_cast_uchar v) = rint v" using assms by (rule saturate_cast_uchar_rint)
  then have "real (unat (saturate_cast_uchar v)) = of_int (rint v)"
    by (metis of_int_of_nat_eq of_nat_unat)
  then show ?thesis using rint_near [of v] by simp
qed


lemma mix_color_nth:
  "Vec3_nth (mix_color color2 weight px) k =
     saturate_cast_uchar (Vec3_nth (mix_color_f color2 weight (Vec3f_of_Vec3b px)) k)"
  by (simp add: mix_color_def Vec3b_of_Vec3f_nth)














subsection \<open>Between source and target\<close>

lemma convex_between:
  fixes s t a :: real
  assumes "0 \<le> a" and "a \<le> 1"
  shows "min s t \<le> s * (1 - a) + t * a \<and> s * (1 - a) + t * a \<le> max s t"
proof -
  define d where "d = a * (t - s)"
  have e: "s * (1 - a) + t * a = s + d" by (simp add: d_def algebra_simps)
  show ?thesis
  proof (cases "s \<le> t")
    case True
    have "0 \<le> d" unfolding d_def using True assms by simp
    moreover have "d \<le> t - s"
      unfolding d_def using mult_right_mono [of a 1 "t - s"] True assms by simp
    ultimately show ?thesis using True unfolding e by (simp add: min_def max_def)
  next
    case False
    have "d \<le> 0" unfolding d_def using False assms by (simp add: mult_nonneg_nonpos)
    moreover have "t - s \<le> d"
      unfolding d_def using mult_right_mono_neg [of a 1 "t - s"] False assms by simp
    ultimately show ?thesis using False unfolding e by (simp add: min_def max_def)
  qed
qed

lemma spec_blend_between:
  assumes "0 \<le> w0" and "w0 \<le> 1"
  shows "min (Vec3_nth (Vec3f_of_Vec3b px) k) (Vec3_nth color2 k)
           \<le> Vec3_nth (spec_blend (Vec3f_of_Vec3b px) w0 color2) k
         \<and> Vec3_nth (spec_blend (Vec3f_of_Vec3b px) w0 color2) k
           \<le> max (Vec3_nth (Vec3f_of_Vec3b px) k) (Vec3_nth color2 k)"
  unfolding spec_blend_nth
  using spec_mixAmount_range [OF assms, of px] by (intro convex_between) simp_all

lemma mix_color_f_between:
  assumes "\<bar>w - w0\<bar> \<le> 6 / 100000000" and "0 \<le> w0" and "w0 \<le> 1"
  shows "min (real (unat (Vec3_nth px k))) (real (unat (Vec3_nth t k))) - 1 / 5000
           \<le> Vec3_nth (mix_color_f (Vec3f_of_Vec3b t) w (Vec3f_of_Vec3b px)) k
         \<and> Vec3_nth (mix_color_f (Vec3f_of_Vec3b t) w (Vec3f_of_Vec3b px)) k
           \<le> max (real (unat (Vec3_nth px k))) (real (unat (Vec3_nth t k))) + 1 / 5000"
proof -
  define c where "c = Vec3_nth (Vec3f_of_Vec3b t) k"
  have c: "0 \<le> c" "c \<le> 255"
    unfolding c_def Vec3f_of_Vec3b_nth using real_unat_uchar_range [of "Vec3_nth t k"] by simp_all
  have "\<bar>Vec3_nth (mix_color_f (Vec3f_of_Vec3b t) w (Vec3f_of_Vec3b px)) k
           - Vec3_nth (spec_blend (Vec3f_of_Vec3b px) w0 (Vec3f_of_Vec3b t)) k\<bar> \<le> 1 / 5000"
    using c unfolding c_def by (intro mix_color_f_close [OF assms]) simp_all
  then show ?thesis
    using spec_blend_between [OF assms(2,3), of px k "Vec3f_of_Vec3b t"]
    unfolding Vec3f_of_Vec3b_nth by linarith
qed

lemma mix_color_between:
  assumes "\<bar>w - w0\<bar> \<le> 6 / 100000000" and "0 \<le> w0" and "w0 \<le> 1"
  shows "min (unat (Vec3_nth px k)) (unat (Vec3_nth t k))
           \<le> unat (Vec3_nth (mix_color (Vec3f_of_Vec3b t) w px) k)
         \<and> unat (Vec3_nth (mix_color (Vec3f_of_Vec3b t) w px) k)
           \<le> max (unat (Vec3_nth px k)) (unat (Vec3_nth t k))"
proof -
  define s where "s = Vec3_nth px k"
  define c where "c = Vec3_nth t k"
  define v where "v = Vec3_nth (mix_color_f (Vec3f_of_Vec3b t) w (Vec3f_of_Vec3b px)) k"
  have b: "min (real (unat s)) (real (unat c)) - 1 / 5000 \<le> v"
    "v \<le> max (real (unat s)) (real (unat c)) + 1 / 5000"
    using mix_color_f_between [OF assms, of px k t] by (simp_all add: v_def s_def c_def)
  have "real_of_int (min (uint s) (uint c)) = min (real (unat s)) (real (unat c))"
    by (simp add: of_int_min)
  then have lo: "of_int (min (uint s) (uint c)) - 1 / 2 < v" using b(1) by linarith
  have "real_of_int (max (uint s) (uint c)) = max (real (unat s)) (real (unat c))"
    by (simp add: of_int_max)
  then have hi: "v < of_int (max (uint s) (uint c)) + 1 / 2" using b(2) by linarith
  have "0 \<le> min (uint s) (uint c)" by simp
  moreover have "max (uint s) (uint c) \<le> 255"
    using uint_uchar_le [of s] uint_uchar_le [of c] by simp
  ultimately have r: "min (uint s) (uint c) \<le> uint (saturate_cast_uchar v)"
      "uint (saturate_cast_uchar v) \<le> max (uint s) (uint c)"
    using saturate_cast_uchar_between [OF _ _ lo hi] by simp_all
  have m: "Vec3_nth (mix_color (Vec3f_of_Vec3b t) w px) k = saturate_cast_uchar v"
    by (simp add: mix_color_nth v_def)
  have "int (min (unat s) (unat c)) \<le> int (unat (saturate_cast_uchar v))"
    using r(1) by (simp add: of_nat_min)
  moreover have "int (unat (saturate_cast_uchar v)) \<le> int (max (unat s) (unat c))"
    using r(2) by (simp add: of_nat_max)
  ultimately show ?thesis unfolding m s_def [symmetric] c_def [symmetric] by linarith
qed

text \<open>
  C8. For a weight in \<open>[0, 1]\<close> (the luminance of an 8-bit pixel is in \<open>[0, 1]\<close> by
  itself), each channel of the blend lies between the smaller and the larger of the source
  channel and the target channel: the exact blend for any target colour; the mixed colour
  that the CPU loop holds in floating point, up to \<open>1 / 5000\<close>, for a target colour with
  components in \<open>0..255\<close>; and the 8-bit output for such a target colour, with a given
  weight and with the weight that the CPU loop takes from a mask byte.
\<close>

theorem blend_between_source_and_target:
  assumes "0 \<le> weight" and "weight \<le> 1"
  shows "min (Vec3_nth (Vec3f_of_Vec3b px) k) (Vec3_nth color2 k)
           \<le> Vec3_nth (spec_blend (Vec3f_of_Vec3b px) weight color2) k
         \<and> Vec3_nth (spec_blend (Vec3f_of_Vec3b px) weight color2) k
           \<le> max (Vec3_nth (Vec3f_of_Vec3b px) k) (Vec3_nth color2 k)
         \<and> min (real (unat (Vec3_nth px k))) (real (unat (Vec3_nth t k))) - 1 / 5000
           \<le> Vec3_nth (mix_color_f (Vec3f_of_Vec3b t) weight (Vec3f_of_Vec3b px)) k
         \<and> Vec3_nth (mix_color_f (Vec3f_of_Vec3b t) weight (Vec3f_of_Vec3b px)) k
           \<le> max (real (unat (Vec3_nth px k))) (real (unat (Vec3_nth t k))) + 1 / 5000
         \<and> min (unat (Vec3_nth px k)) (unat (Vec3_nth t k))
           \<le> unat (Vec3_nth (mix_color (Vec3f_of_Vec3b t) weight px) k)
         \<and> unat (Vec3_nth (mix_color (Vec3f_of_Vec3b t) weight px) k)
           \<le> max (unat (Vec3_nth px k)) (unat (Vec3_nth t k))
         \<and> min (unat (Vec3_nth px k)) (unat (Vec3_nth t k))
           \<le> unat (Vec3_nth (RenderCpu_pixel (Vec3f_of_Vec3b t) m px) k)
         \<and> unat (Vec3_nth (RenderCpu_pixel (Vec3f_of_Vec3b t) m px) k)
           \<le> max (unat (Vec3_nth px k)) (unat (Vec3_nth t k))"
proof -
  have e: "\<bar>weight - weight\<bar> \<le> 6 / 100000000" by simp
  have w: "0 \<le> real (unat m) / 255" "real (unat m) / 255 \<le> 1"
    using real_unat_uchar_range [of m] by simp_all
  show ?thesis
    using spec_blend_between [OF assms, of px k color2]
      mix_color_f_between [OF e assms, of px k t]
      mix_color_between [OF e assms, of px k t]
      mix_color_between [OF weight_of_mask_close w, of px k t]
    unfolding RenderCpu_pixel_def by blast
qed

theorem blend_between_source_and_target_witness:
  "(0 :: real) \<le> 1 / 2 \<and> (1 / 2 :: real) \<le> 1
   \<and> min (unat (50 :: uchar)) (unat (255 :: uchar))
       \<le> unat (Vec3_nth (mix_color (Vec3f_of_Vec3b (0, 0, 255)) (1 / 2) (200, 100, 50)) 2)
   \<and> unat (Vec3_nth (mix_color (Vec3f_of_Vec3b (0, 0, 255)) (1 / 2) (200, 100, 50)) 2)
       \<le> max (unat (50 :: uchar)) (unat (255 :: uchar))"
proof -
  have h: "(0 :: real) \<le> 1 / 2" "(1 / 2 :: real) \<le> 1" by simp_all
  have n: "Vec3_nth ((200, 100, 50) :: Vec3b) 2 = 50" "Vec3_nth ((0, 0, 255) :: Vec3b) 2 = 255"
    by simp_all
  show ?thesis
    using h blend_between_source_and_target [OF h, of "(200, 100, 50)" 2 "(0, 0, 255)" "(0, 0, 255)" 128]
    unfolding n by (simp only: simp_thms)
qed


subsection \<open>The CPU loop and the fragment shader\<close>

lemma selector_index_mask_component:
  "selector_index (InitGpu_mask_component sel) = Some (if sel = ALPHA then 3 else 0)"
  by (cases sel) (simp_all add: selector_index_def)

lemma frag_main_InitGpu_program:
  "frag_main (InitGpu_program calc) weight color1 =
     (let c = (if mask_channel calc = ALPHA then 3 else 0);
          mix_value = vec4_nth weight c
            * (vec4_nth color1 0 * 0.299 + vec4_nth color1 1 * 0.587 + vec4_nth color1 2 * 0.114)
      in Some (glsl_mix (vec4_nth color1 0) (Vec3_nth (color calc) 0 / 255) mix_value,
               glsl_mix (vec4_nth color1 1) (Vec3_nth (color calc) 1 / 255) mix_value,
               glsl_mix (vec4_nth color1 2) (Vec3_nth (color calc) 2 / 255) mix_value,
               glsl_mix (vec4_nth color1 3) 1 mix_value))"
  by (simp add: frag_main_def InitGpu_program_def selector_index_mask_component Let_def)

lemma glsl_mix_scaled: "glsl_mix (s / 255) (c / 255) a * 255 = s * (1 - a) + c * a"
  by (simp add: glsl_mix_def distrib_right)

lemma spec_luminance_scaled:
  "x / 255 * 0.299 + y / 255 * 0.587 + z / 255 * 0.114 = spec_luminance (x, y, z)"
  by (simp add: spec_luminance_def add_divide_distrib)

lemma fragment_is_spec_blend:
  assumes "k < 3"
    and "frag_main (InitGpu_program calc) (texel_of_bytes (m0, m1, m2, m3))
           (texel_of_bytes (r, g, b, a)) = Some fragColor"
  shows "vec4_nth fragColor k * 255 =
           Vec3_nth (spec_blend (Vec3f_of_Vec3b (r, g, b))
                       (real (unat (if mask_channel calc = ALPHA then m3 else m0)) / 255)
                       (color calc)) k"
proof -
  obtain cr cg cb where c: "color calc = (cr, cg, cb)" by (cases "color calc") auto
  define m where "m = (if mask_channel calc = ALPHA then m3 else m0)"
  define x y z where "x = real (unat r)" and "y = real (unat g)" and "z = real (unat b)"
  define w0 where "w0 = real (unat m) / 255"
  define mv where "mv = spec_mixAmount (x, y, z) w0"
  have w: "vec4_nth (texel_of_bytes (m0, m1, m2, m3)) (if mask_channel calc = ALPHA then 3 else 0)
      = w0"
    by (simp add: m_def w0_def)
  define T where "T = texel_of_bytes (r, g, b, a)"
  have t: "vec4_nth T 0 = x / 255" "vec4_nth T 1 = y / 255" "vec4_nth T 2 = z / 255"
    by (simp_all add: T_def x_def y_def z_def)
  have lum: "vec4_nth T 0 * 0.299 + vec4_nth T 1 * 0.587 + vec4_nth T 2 * 0.114
      = spec_luminance (x, y, z)"
    unfolding t by (rule spec_luminance_scaled)
  have cn: "Vec3_nth (color calc) 0 = cr" "Vec3_nth (color calc) 1 = cg"
    "Vec3_nth (color calc) 2 = cb"
    by (simp_all add: c)
  have "frag_main (InitGpu_program calc) (texel_of_bytes (m0, m1, m2, m3)) T =
        Some (glsl_mix (x / 255) (cr / 255) mv, glsl_mix (y / 255) (cg / 255) mv,
              glsl_mix (z / 255) (cb / 255) mv, glsl_mix (vec4_nth T 3) 1 mv)"
    unfolding frag_main_InitGpu_program Let_def w lum cn
    unfolding t mv_def spec_mixAmount_def by (rule refl)
  then have f: "fragColor = (glsl_mix (x / 255) (cr / 255) mv, glsl_mix (y / 255) (cg / 255) mv,
              glsl_mix (z / 255) (cb / 255) mv, glsl_mix (vec4_nth T 3) 1 mv)"
    using assms(2) unfolding T_def by simp
  have v: "Vec3f_of_Vec3b (r, g, b) = (x, y, z)" by (simp add: x_def y_def z_def)
  have k: "k = 0 \<or> k = 1 \<or> k = 2" using assms(1) by arith
  have "vec4_nth fragColor k * 255 =
      Vec3_nth (x, y, z) k * (1 - mv) + Vec3_nth (cr, cg, cb) k * mv"
    using k unfolding f by (auto simp: glsl_mix_scaled)
  then show ?thesis
    unfolding spec_blend_nth v c m_def [symmetric] w0_def [symmetric] mv_def by simp
qed

text \<open>
  C2. Take a source pixel, a mask pixel and a configured colour whose component \<open>k\<close> is in
  \<open>[0, 255]\<close>. The fragment shader, with the program that \<^verbatim>\<open>InitGpu\<close> sets up, run on the
  sampled values of the two texels, gives a colour whose channel \<open>k\<close>, rescaled to
  \<open>0..255\<close>, is the exact blend for the mask byte of the channel that the CPU path selects.
  The mixed colour that the CPU loop holds in floating point is within \<open>1 / 5000\<close> of it,
  and the output byte of the CPU loop, divided by 255, differs from the fragment's channel
  by at most \<open>2 / 255\<close>.
\<close>

theorem cpu_pixel_matches_gpu_fragment:
  assumes "k < 3" and "0 \<le> Vec3_nth (color calc) k" and "Vec3_nth (color calc) k \<le> 255"
  shows "\<exists>fragColor.
           frag_main (InitGpu_program calc) (texel_of_bytes (m0, m1, m2, m3))
             (texel_of_bytes (r, g, b, a)) = Some fragColor
           \<and> vec4_nth fragColor k * 255 =
               Vec3_nth (spec_blend (Vec3f_of_Vec3b (r, g, b))
                           (real (unat (if mask_channel calc = ALPHA then m3 else m0)) / 255)
                           (color calc)) k
           \<and> \<bar>Vec3_nth (mix_color_f (color calc)
                           (weight_of_mask (if mask_channel calc = ALPHA then m3 else m0))
                           (Vec3f_of_Vec3b (r, g, b))) k
               - vec4_nth fragColor k * 255\<bar> \<le> 1 / 5000
           \<and> \<bar>real (unat (Vec3_nth (RenderCpu_pixel (color calc)
                                       (if mask_channel calc = ALPHA then m3 else m0)
                                       (r, g, b)) k)) / 255
               - vec4_nth fragColor k\<bar> \<le> 2 / 255"
proof -
  define m where "m = (if mask_channel calc = ALPHA then m3 else m0)"
  define v where "v = Vec3_nth (mix_color_f (color calc) (weight_of_mask m) (Vec3f_of_Vec3b (r, g, b))) k"
  define v0 where "v0 = Vec3_nth (spec_blend (Vec3f_of_Vec3b (r, g, b)) (real (unat m) / 255) (color calc)) k"
  obtain fragColor where f: "frag_main (InitGpu_program calc) (texel_of_bytes (m0, m1, m2, m3))
             (texel_of_bytes (r, g, b, a)) = Some fragColor"
    unfolding frag_main_InitGpu_program by (simp add: Let_def)
  have e: "vec4_nth fragColor k * 255 = v0"
    using fragment_is_spec_blend [OF assms(1) f] by (simp add: v0_def m_def)
  have w: "0 \<le> real (unat m) / 255" "real (unat m) / 255 \<le> 1"
    using real_unat_uchar_range [of m] by simp_all
  have close: "\<bar>v - v0\<bar> \<le> 1 / 5000"
    unfolding v_def v0_def by (rule mix_color_f_close [OF weight_of_mask_close w assms(2,3)])
  have s: "0 \<le> Vec3_nth (Vec3f_of_Vec3b (r, g, b)) k" "Vec3_nth (Vec3f_of_Vec3b (r, g, b)) k \<le> 255"
    unfolding Vec3f_of_Vec3b_nth using real_unat_uchar_range [of "Vec3_nth (r, g, b) k"] by simp_all
  have range0: "0 \<le> v0" "v0 \<le> 255"
    using spec_blend_between [OF w, of "(r, g, b)" k "color calc"] s assms(2,3)
    unfolding v0_def by (simp_all add: min_def max_def split: if_splits)
  have range: "- (1 / 2) < v" "v < 255 + 1 / 2" using close range0 by linarith+
  have cpu: "Vec3_nth (RenderCpu_pixel (color calc) m (r, g, b)) k = saturate_cast_uchar v"
    by (simp add: RenderCpu_pixel_def mix_color_nth v_def)
  have near: "\<bar>real (unat (saturate_cast_uchar v)) - v\<bar> \<le> 1 / 2"
    using saturate_cast_uchar_near [OF range] .
  define x where "x = real (unat (saturate_cast_uchar v))"
  define y where "y = vec4_nth fragColor k"
  have y: "y * 255 = v0" using e by (simp add: y_def)
  moreover have "\<bar>x - v\<bar> \<le> 1 / 2" using near by (simp only: x_def)
  ultimately have "\<bar>x / 255 - y\<bar> \<le> 2 / 255" using close by linarith
  then have d: "\<bar>real (unat (Vec3_nth (RenderCpu_pixel (color calc) m (r, g, b)) k)) / 255
      - vec4_nth fragColor k\<bar> \<le> 2 / 255"
    by (simp only: cpu x_def y_def)
  have c: "\<bar>v - vec4_nth fragColor k * 255\<bar> \<le> 1 / 5000" using close e by simp
  show ?thesis using f e c d unfolding m_def v_def v0_def by blast
qed

theorem cpu_pixel_matches_gpu_fragment_witness:
  "(2 :: nat) < 3
   \<and> 0 \<le> Vec3_nth (color (opened_calculator (0, 0, 255) ALPHA)) 2
   \<and> Vec3_nth (color (opened_calculator (0, 0, 255) ALPHA)) 2 \<le> 255
   \<and> (\<exists>fragColor.
         frag_main (InitGpu_program (opened_calculator (0, 0, 255) ALPHA))
           (texel_of_bytes (10, 20, 30, 128)) (texel_of_bytes (200, 100, 50, 255))
           = Some fragColor
         \<and> \<bar>real (unat (Vec3_nth (RenderCpu_pixel (0, 0, 255) 128 (200, 100, 50)) 2)) / 255
             - vec4_nth fragColor 2\<bar> \<le> 2 / 255)"
proof -
  let ?calc = "opened_calculator (0, 0, 255) ALPHA"
  have h1: "(2 :: nat) < 3" by simp
  have h2: "0 \<le> Vec3_nth (color ?calc) 2" by (simp add: opened_calculator_def)
  have h3: "Vec3_nth (color ?calc) 2 \<le> 255" by (simp add: opened_calculator_def)
  have c: "color ?calc = (0, 0, 255)" and sel: "mask_channel ?calc = ALPHA"
    by (simp_all add: opened_calculator_def)
  have m: "(if mask_channel ?calc = ALPHA then (128 :: uchar) else 10) = 128"
    by (simp add: sel)
  obtain fragColor where
    f: "frag_main (InitGpu_program ?calc) (texel_of_bytes (10, 20, 30, 128))
          (texel_of_bytes (200, 100, 50, 255)) = Some fragColor"
    and d: "\<bar>real (unat (Vec3_nth (RenderCpu_pixel (color ?calc)
                (if mask_channel ?calc = ALPHA then 128 else 10) (200, 100, 50)) 2)) / 255
            - vec4_nth fragColor 2\<bar> \<le> 2 / 255"
    using cpu_pixel_matches_gpu_fragment [OF h1 h2 h3, of 10 20 30 128 200 100 50 255]
    by (elim exE conjE)
  have "\<bar>real (unat (Vec3_nth (RenderCpu_pixel (0, 0, 255) 128 (200, 100, 50)) 2)) / 255
            - vec4_nth fragColor 2\<bar> \<le> 2 / 255"
    using d unfolding m c .
  with f have "\<exists>fragColor.
         frag_main (InitGpu_program ?calc)
           (texel_of_bytes (10, 20, 30, 128)) (texel_of_bytes (200, 100, 50, 255))
           = Some fragColor
         \<and> \<bar>real (unat (Vec3_nth (RenderCpu_pixel (0, 0, 255) 128 (200, 100, 50)) 2)) / 255
             - vec4_nth fragColor 2\<bar> \<le> 2 / 255"
    by (intro exI conjI)
  with h1 h2 h3 show ?thesis by (intro conjI)
qed


subsection \<open>The output image of the CPU path\<close>

lemma RenderCpu_row_at:
  "mat_at (RenderCpu_row color2 mask_full input_mat n i out) i' j' k =
     (if i' = i \<and> j' < n \<and> k < 3
      then Vec3_nth (RenderCpu_pixel color2 (mat_at mask_full i j' 0) (Vec3b_at input_mat i j')) k
      else mat_at out i' j' k)"
proof (induction n)
  case 0
  then show ?case by (simp add: RenderCpu_row_def)
next
  case (Suc n)
  have step: "RenderCpu_row color2 mask_full input_mat (Suc n) i out =
      Vec3b_set (RenderCpu_row color2 mask_full input_mat n i out) i n
        (RenderCpu_pixel color2 (mat_at mask_full i n 0) (Vec3b_at input_mat i n))"
    by (simp add: RenderCpu_row_def)
  show ?case
    unfolding step using Suc.IH by (auto simp: Vec3b_set_def less_Suc_eq)
qed

lemma RenderCpu_rows_at:
  "mat_at (fold (RenderCpu_row color2 mask_full input_mat n) [0..<r] out) i' j' k =
     (if i' < r \<and> j' < n \<and> k < 3
      then Vec3_nth (RenderCpu_pixel color2 (mat_at mask_full i' j' 0) (Vec3b_at input_mat i' j')) k
      else mat_at out i' j' k)"
proof (induction r)
  case 0
  then show ?case by simp
next
  case (Suc r)
  show ?case
    using Suc.IH by (auto simp: RenderCpu_row_at less_Suc_eq)
qed

lemma RenderCpu_loop_at:
  "mat_at (RenderCpu_loop color2 mask_full input_mat out) i j k =
     (if i < rows out \<and> j < cols out \<and> k < 3
      then Vec3_nth (RenderCpu_pixel color2 (mat_at mask_full i j 0) (Vec3b_at input_mat i j)) k
      else mat_at out i j k)"
  by (simp add: RenderCpu_loop_def RenderCpu_rows_at)

lemma RenderCpu_frame:
  assumes "MASK cc = Some mask_img" and "IMAGE cc = Some input_img"
    and "NumberOfChannels (Format input_img) = 3"
    and "RenderCpu_mask_plane (mask_channel calc) (MatView mask_img) = Some plane"
  shows "\<exists>output_img.
           RenderCpu resize calc cc =
             (OkStatus,
              cc\<lparr>Outputs_IMAGE := Outputs_IMAGE cc @ [(output_img, InputTimestamp cc)],
                 allocations := allocations cc + 1\<rparr>)
           \<and> Format output_img = Format input_img
           \<and> Width output_img = Width input_img
           \<and> Height output_img = Height input_img
           \<and> (\<forall>i j k. i < Height input_img \<longrightarrow> j < Width input_img \<longrightarrow> k < 3 \<longrightarrow>
                 PixelData output_img i j k =
                   Vec3_nth (RenderCpu_pixel (color calc)
                               (mat_at (resize plane (Width input_img, Height input_img)) i j 0)
                               (Vec3b_at (MatView input_img) i j)) k)"
proof -
  define mask_full where "mask_full = resize plane (Width input_img, Height input_img)"
  define blank where
    "blank = \<lparr>Format = Format input_img, Width = Width input_img, Height = Height input_img,
              PixelData = (\<lambda>i j k. 0)\<rparr>"
  define output_img where
    "output_img = blank\<lparr>PixelData :=
       mat_at (RenderCpu_loop (color calc) mask_full (MatView input_img) (MatView blank))\<rparr>"
  have run: "RenderCpu resize calc cc =
      (OkStatus,
       cc\<lparr>Outputs_IMAGE := Outputs_IMAGE cc @ [(output_img, InputTimestamp cc)],
          allocations := allocations cc + 1\<rparr>)"
    using assms(1-4)
    by (simp add: RenderCpu_def Let_def output_img_def blank_def mask_full_def MatView_def)
  have size: "Format output_img = Format input_img" "Width output_img = Width input_img"
    "Height output_img = Height input_img"
    by (simp_all add: output_img_def blank_def)
  have "PixelData output_img i j k =
      Vec3_nth (RenderCpu_pixel (color calc) (mat_at mask_full i j 0)
                  (Vec3b_at (MatView input_img) i j)) k"
    if "i < Height input_img" "j < Width input_img" "k < 3" for i j k
    using that by (simp add: output_img_def blank_def RenderCpu_loop_at MatView_def)
  then show ?thesis using run size unfolding mask_full_def by blast
qed


lemma weight_of_mask_77: "weight_of_mask 77 = 10132123 / 33554432"
  unfolding weight_of_mask_def by code_simp

lemma luminance_203: "luminance (203, 203, 203) = 3338995 / 4194304"
  unfolding luminance_def by code_simp

lemma mix_value_203:
  "mix_value (10132123 / 33554432) (203, 203, 203) = 16131929 / 67108864"
  unfolding mix_value_def luminance_203 by code_simp

lemma mix_color_f_203:
  "Vec3_nth (mix_color_f (0, 0, 255) (10132123 / 33554432) (203, 203, 203)) 2 = 431 / 2"
  unfolding mix_color_f_nth mix_value_203 by code_simp

lemma RenderCpu_pixel_203:
  "Vec3_nth (RenderCpu_pixel (0, 0, 255) 77 (203, 203, 203)) 2 = 216"
proof -
  have v: "Vec3f_of_Vec3b (203, 203, 203) = (203, 203, 203)" by simp
  have "saturate_cast_uchar (431 / 2) = 216"
    by (simp add: saturate_cast_uchar_def cvRound_def rint_def saturate_cast_uchar_int_def Let_def)
  then show ?thesis
    unfolding RenderCpu_pixel_def weight_of_mask_77 mix_color_nth v mix_color_f_203 .
qed

lemma spec_blend_203:
  "Vec3_nth (spec_blend (203, 203, 203) (77 / 255) (0, 0, 255)) 2 = 14012887 / 65025"
  by (simp add: spec_blend_def spec_mixAmount_def spec_luminance_def Let_def)

lemma spec_blend_203_rounded:
  "saturate_cast_uchar (14012887 / 65025) = 215"
  by (simp add: saturate_cast_uchar_def cvRound_def rint_def saturate_cast_uchar_int_def Let_def)

text \<open>
  C1, as the specification states it: each output pixel of the CPU path is the result of
  the blend formula on the source pixel, the mask byte divided by 255 and the configured
  colour, converted to 8 bits. With the formula read in exact arithmetic this fails: for
  a source pixel \<open>(203, 203, 203)\<close>, the mask byte 77 and the colour \<open>(0, 0, 255)\<close> the blue
  channel of the formula is \<open>215.49999...\<close>, which converts to 215, while the CPU path, whose
  \<^verbatim>\<open>weight\<close>, \<^verbatim>\<open>luminance\<close>, \<^verbatim>\<open>mix_value\<close> and vectors are \<^verbatim>\<open>float\<close>, arrives at \<open>215.5\<close>
  and writes 216.
\<close>

theorem float_blend_differs_from_exact_blend:
  "fst (RenderCpu same_size (opened_calculator (0, 0, 255) RED)
          (cpu_context (Some (uniform_frame SRGB 1 1 203)) (Some (uniform_frame GRAY8 1 1 77))))
     = OkStatus
   \<and> PixelData
        (fst (last (Outputs_IMAGE
           (snd (RenderCpu same_size (opened_calculator (0, 0, 255) RED)
                   (cpu_context (Some (uniform_frame SRGB 1 1 203))
                      (Some (uniform_frame GRAY8 1 1 77)))))))) 0 0 2 = 216
   \<and> Vec3_nth (RenderCpu_pixel (0, 0, 255) 77 (203, 203, 203)) 2 = 216
   \<and> Vec3_nth (Vec3b_of_Vec3f (spec_blend (Vec3f_of_Vec3b (203, 203, 203)) (77 / 255)
                  (0, 0, 255))) 2 = 215"
proof -
  let ?img = "uniform_frame SRGB 1 1 203"
  let ?mask = "uniform_frame GRAY8 1 1 77"
  let ?cc = "cpu_context (Some ?img) (Some ?mask)"
  let ?calc = "opened_calculator (0, 0, 255) RED"
  have h1: "MASK ?cc = Some ?mask" by (simp add: cpu_context_def)
  have h2: "IMAGE ?cc = Some ?img" by (simp add: cpu_context_def)
  have h3: "NumberOfChannels (Format ?img) = 3" by (simp add: uniform_frame_def)
  have h4: "RenderCpu_mask_plane (mask_channel ?calc) (MatView ?mask) = Some (MatView ?mask)"
    by (simp add: RenderCpu_mask_plane_def MatView_def uniform_frame_def)
  obtain out where run: "RenderCpu same_size ?calc ?cc =
      (OkStatus, ?cc\<lparr>Outputs_IMAGE := Outputs_IMAGE ?cc @ [(out, InputTimestamp ?cc)],
                     allocations := allocations ?cc + 1\<rparr>)"
    and px: "\<forall>i j k. i < Height ?img \<longrightarrow> j < Width ?img \<longrightarrow> k < 3 \<longrightarrow>
        PixelData out i j k =
          Vec3_nth (RenderCpu_pixel (color ?calc)
                      (mat_at (same_size (MatView ?mask) (Width ?img, Height ?img)) i j 0)
                      (Vec3b_at (MatView ?img) i j)) k"
    using RenderCpu_frame [OF h1 h2 h3 h4, of same_size] by (elim exE conjE)
  have "PixelData out 0 0 2 =
      Vec3_nth (RenderCpu_pixel (color ?calc)
                  (mat_at (same_size (MatView ?mask) (Width ?img, Height ?img)) 0 0 0)
                  (Vec3b_at (MatView ?img) 0 0)) 2"
    using px by (simp add: uniform_frame_def)
  also have "\<dots> = Vec3_nth (RenderCpu_pixel (0, 0, 255) 77 (203, 203, 203)) 2"
    by (simp add: opened_calculator_def same_size_def MatView_def uniform_frame_def Vec3b_at_def)
  finally have p: "PixelData out 0 0 2 = 216" by (simp only: RenderCpu_pixel_203)
  have v: "Vec3f_of_Vec3b (203, 203, 203) = (203, 203, 203)" by simp
  have e: "Vec3_nth (Vec3b_of_Vec3f (spec_blend (Vec3f_of_Vec3b (203, 203, 203)) (77 / 255)
                  (0, 0, 255))) 2 = 215"
    unfolding Vec3b_of_Vec3f_nth v spec_blend_203 by (rule spec_blend_203_rounded)
  show ?thesis using p e RenderCpu_pixel_203 unfolding run by simp
qed


lemma RenderCpu_pixel_close:
  assumes "0 \<le> Vec3_nth color2 k" and "Vec3_nth color2 k \<le> 255"
  shows "Vec3_nth (RenderCpu_pixel color2 m px) k
           = saturate_cast_uchar
               (Vec3_nth (mix_color_f color2 (weight_of_mask m) (Vec3f_of_Vec3b px)) k)
         \<and> \<bar>Vec3_nth (mix_color_f color2 (weight_of_mask m) (Vec3f_of_Vec3b px)) k
             - Vec3_nth (spec_blend (Vec3f_of_Vec3b px) (real (unat m) / 255) color2) k\<bar>
            \<le> 1 / 5000
         \<and> \<bar>real (unat (Vec3_nth (RenderCpu_pixel color2 m px) k))
             - Vec3_nth (spec_blend (Vec3f_of_Vec3b px) (real (unat m) / 255) color2) k\<bar>
            \<le> 1 / 2 + 1 / 5000"
proof -
  define v where "v = Vec3_nth (mix_color_f color2 (weight_of_mask m) (Vec3f_of_Vec3b px)) k"
  define v0 where "v0 = Vec3_nth (spec_blend (Vec3f_of_Vec3b px) (real (unat m) / 255) color2) k"
  have w: "0 \<le> real (unat m) / 255" "real (unat m) / 255 \<le> 1"
    using real_unat_uchar_range [of m] by simp_all
  have close: "\<bar>v - v0\<bar> \<le> 1 / 5000"
    unfolding v_def v0_def by (rule mix_color_f_close [OF weight_of_mask_close w assms])
  have s: "0 \<le> Vec3_nth (Vec3f_of_Vec3b px) k" "Vec3_nth (Vec3f_of_Vec3b px) k \<le> 255"
    unfolding Vec3f_of_Vec3b_nth using real_unat_uchar_range [of "Vec3_nth px k"] by simp_all
  have range0: "0 \<le> v0" "v0 \<le> 255"
    using spec_blend_between [OF w, of px k color2] s assms
    unfolding v0_def by (simp_all add: min_def max_def split: if_splits)
  have range: "- (1 / 2) < v" "v < 255 + 1 / 2" using close range0 by linarith+
  have cpu: "Vec3_nth (RenderCpu_pixel color2 m px) k = saturate_cast_uchar v"
    by (simp add: RenderCpu_pixel_def mix_color_nth v_def)
  have "\<bar>real (unat (saturate_cast_uchar v)) - v\<bar> \<le> 1 / 2"
    using saturate_cast_uchar_near [OF range] .
  then have "\<bar>real (unat (saturate_cast_uchar v)) - v0\<bar> \<le> 1 / 2 + 1 / 5000"
    using close by linarith
  then show ?thesis using close unfolding cpu v_def v0_def by simp
qed

text \<open>
  C1, amended: for a frame with a mask packet, a three-channel source image and a mask
  plane, \<^verbatim>\<open>RenderCpu\<close> returns the OK status and adds one image of the source's format and
  size to the output stream, at the input timestamp. Each channel of each of its pixels,
  for a colour component in \<open>[0, 255]\<close>, is the 8-bit conversion of the mixed colour that
  the loop computes in floating point from the source pixel, the byte of the resized mask
  plane and the configured colour, the conversion coming after the mix; that value is
  within \<open>1 / 5000\<close> of the blend of the specification (luminance
  \<open>(R * 0.299 + G * 0.587 + B * 0.114) / 255\<close>, mix amount weight times luminance, result
  source times (1 - mix amount) plus target times mix amount) in exact arithmetic, and the
  output byte within \<open>1 / 2 + 1 / 5000\<close> of it.
\<close>

theorem RenderCpu_pixels_close_to_spec_blend:
  assumes "MASK cc = Some mask_img" and "IMAGE cc = Some input_img"
    and "NumberOfChannels (Format input_img) = 3"
    and "RenderCpu_mask_plane (mask_channel calc) (MatView mask_img) = Some plane"
    and "i < Height input_img" and "j < Width input_img" and "k < 3"
    and "0 \<le> Vec3_nth (color calc) k" and "Vec3_nth (color calc) k \<le> 255"
  shows "\<exists>output_img.
           RenderCpu resize calc cc =
             (OkStatus,
              cc\<lparr>Outputs_IMAGE := Outputs_IMAGE cc @ [(output_img, InputTimestamp cc)],
                 allocations := allocations cc + 1\<rparr>)
           \<and> Format output_img = Format input_img
           \<and> Width output_img = Width input_img
           \<and> Height output_img = Height input_img
           \<and> PixelData output_img i j k =
               saturate_cast_uchar
                 (Vec3_nth
                    (mix_color_f (color calc)
                       (weight_of_mask
                          (mat_at (resize plane (Width input_img, Height input_img)) i j 0))
                       (Vec3f_of_Vec3b (Vec3b_at (MatView input_img) i j))) k)
           \<and> \<bar>Vec3_nth
                 (mix_color_f (color calc)
                    (weight_of_mask
                       (mat_at (resize plane (Width input_img, Height input_img)) i j 0))
                    (Vec3f_of_Vec3b (Vec3b_at (MatView input_img) i j))) k
               - Vec3_nth
                   (spec_blend (Vec3f_of_Vec3b (Vec3b_at (MatView input_img) i j))
                      (real (unat (mat_at (resize plane (Width input_img, Height input_img))
                                     i j 0)) / 255)
                      (color calc)) k\<bar> \<le> 1 / 5000
           \<and> \<bar>real (unat (PixelData output_img i j k))
               - Vec3_nth
                   (spec_blend (Vec3f_of_Vec3b (Vec3b_at (MatView input_img) i j))
                      (real (unat (mat_at (resize plane (Width input_img, Height input_img))
                                     i j 0)) / 255)
                      (color calc)) k\<bar> \<le> 1 / 2 + 1 / 5000"
proof -
  obtain output_img where run: "RenderCpu resize calc cc =
      (OkStatus, cc\<lparr>Outputs_IMAGE := Outputs_IMAGE cc @ [(output_img, InputTimestamp cc)],
                    allocations := allocations cc + 1\<rparr>)"
    and size: "Format output_img = Format input_img" "Width output_img = Width input_img"
      "Height output_img = Height input_img"
    and px: "\<forall>i j k. i < Height input_img \<longrightarrow> j < Width input_img \<longrightarrow> k < 3 \<longrightarrow>
        PixelData output_img i j k =
          Vec3_nth (RenderCpu_pixel (color calc)
                      (mat_at (resize plane (Width input_img, Height input_img)) i j 0)
                      (Vec3b_at (MatView input_img) i j)) k"
    using RenderCpu_frame [OF assms(1-4), of resize] by (elim exE conjE)
  have p: "PixelData output_img i j k =
      Vec3_nth (RenderCpu_pixel (color calc)
                  (mat_at (resize plane (Width input_img, Height input_img)) i j 0)
                  (Vec3b_at (MatView input_img) i j)) k"
    using px assms(5-7) by blast
  show ?thesis
    using run size
      RenderCpu_pixel_close [OF assms(8,9),
        of "mat_at (resize plane (Width input_img, Height input_img)) i j 0"
           "Vec3b_at (MatView input_img) i j"]
    unfolding p [symmetric] by blast
qed


theorem RenderCpu_pixels_close_to_spec_blend_witness:
  "MASK (cpu_context (Some (uniform_frame SRGB 1 1 203)) (Some (uniform_frame GRAY8 1 1 77)))
     = Some (uniform_frame GRAY8 1 1 77)
   \<and> IMAGE (cpu_context (Some (uniform_frame SRGB 1 1 203)) (Some (uniform_frame GRAY8 1 1 77)))
     = Some (uniform_frame SRGB 1 1 203)
   \<and> NumberOfChannels (Format (uniform_frame SRGB 1 1 203)) = 3
   \<and> RenderCpu_mask_plane (mask_channel (opened_calculator (0, 0, 255) RED))
       (MatView (uniform_frame GRAY8 1 1 77)) = Some (MatView (uniform_frame GRAY8 1 1 77))
   \<and> 0 < Height (uniform_frame SRGB 1 1 203) \<and> 0 < Width (uniform_frame SRGB 1 1 203)
   \<and> (2 :: nat) < 3
   \<and> 0 \<le> Vec3_nth (color (opened_calculator (0, 0, 255) RED)) 2
   \<and> Vec3_nth (color (opened_calculator (0, 0, 255) RED)) 2 \<le> 255
   \<and> (\<exists>output_img.
        RenderCpu same_size (opened_calculator (0, 0, 255) RED)
          (cpu_context (Some (uniform_frame SRGB 1 1 203)) (Some (uniform_frame GRAY8 1 1 77)))
        = (OkStatus,
           (cpu_context (Some (uniform_frame SRGB 1 1 203)) (Some (uniform_frame GRAY8 1 1 77)))
             \<lparr>Outputs_IMAGE := [(output_img, 0)], allocations := 1\<rparr>)
        \<and> \<bar>real (unat (PixelData output_img 0 0 2))
            - Vec3_nth (spec_blend (203, 203, 203) (77 / 255) (0, 0, 255)) 2\<bar>
           \<le> 1 / 2 + 1 / 5000)"
proof -
  let ?img = "uniform_frame SRGB 1 1 203"
  let ?mask = "uniform_frame GRAY8 1 1 77"
  let ?cc = "cpu_context (Some ?img) (Some ?mask)"
  let ?calc = "opened_calculator (0, 0, 255) RED"
  have h1: "MASK ?cc = Some ?mask" by (simp add: cpu_context_def)
  have h2: "IMAGE ?cc = Some ?img" by (simp add: cpu_context_def)
  have h3: "NumberOfChannels (Format ?img) = 3" by (simp add: uniform_frame_def)
  have h4: "RenderCpu_mask_plane (mask_channel ?calc) (MatView ?mask) = Some (MatView ?mask)"
    by (simp add: RenderCpu_mask_plane_def MatView_def uniform_frame_def)
  have h5: "0 < Height ?img" by (simp add: uniform_frame_def)
  have h6: "0 < Width ?img" by (simp add: uniform_frame_def)
  have h7: "(2 :: nat) < 3" by simp
  have h8: "0 \<le> Vec3_nth (color ?calc) 2" by (simp add: opened_calculator_def)
  have h9: "Vec3_nth (color ?calc) 2 \<le> 255" by (simp add: opened_calculator_def)
  have c: "Outputs_IMAGE ?cc = []" "InputTimestamp ?cc = 0" "allocations ?cc = 0"
    by (simp_all add: cpu_context_def)
  have m: "mat_at (same_size (MatView ?mask) (Width ?img, Height ?img)) 0 0 0 = 77"
    by (simp add: same_size_def MatView_def uniform_frame_def)
  have s: "Vec3f_of_Vec3b (Vec3b_at (MatView ?img) 0 0) = (203, 203, 203)"
    by (simp add: Vec3b_at_def MatView_def uniform_frame_def)
  have col: "color ?calc = (0, 0, 255)" by (simp add: opened_calculator_def)
  obtain output_img where
    run: "RenderCpu same_size ?calc ?cc =
      (OkStatus, ?cc\<lparr>Outputs_IMAGE := Outputs_IMAGE ?cc @ [(output_img, InputTimestamp ?cc)],
                     allocations := allocations ?cc + 1\<rparr>)"
    and d: "\<bar>real (unat (PixelData output_img 0 0 2))
               - Vec3_nth
                   (spec_blend (Vec3f_of_Vec3b (Vec3b_at (MatView ?img) 0 0))
                      (real (unat (mat_at (same_size (MatView ?mask) (Width ?img, Height ?img))
                                     0 0 0)) / 255)
                      (color ?calc)) 2\<bar> \<le> 1 / 2 + 1 / 5000"
    using RenderCpu_pixels_close_to_spec_blend [OF h1 h2 h3 h4 h5 h6 h7 h8 h9, of same_size]
    by (elim exE conjE)
  have run': "RenderCpu same_size ?calc ?cc =
      (OkStatus, ?cc\<lparr>Outputs_IMAGE := [(output_img, 0)], allocations := 1\<rparr>)"
    using run unfolding c by simp
  have d': "\<bar>real (unat (PixelData output_img 0 0 2))
            - Vec3_nth (spec_blend (203, 203, 203) (77 / 255) (0, 0, 255)) 2\<bar>
           \<le> 1 / 2 + 1 / 5000"
    using d unfolding m s col by simp
  from run' d' have "\<exists>output_img.
        RenderCpu same_size ?calc ?cc
        = (OkStatus, ?cc\<lparr>Outputs_IMAGE := [(output_img, 0)], allocations := 1\<rparr>)
        \<and> \<bar>real (unat (PixelData output_img 0 0 2))
            - Vec3_nth (spec_blend (203, 203, 203) (77 / 255) (0, 0, 255)) 2\<bar>
           \<le> 1 / 2 + 1 / 5000"
    by (intro exI conjI)
  with h1 h2 h3 h4 h5 h6 h7 h8 h9 show ?thesis by (intro conjI)
qed

subsection \<open>The choice of the mask channel\<close>

lemma vector_at_cv_split:
  "vector_at (cv_split m) n =
     (if n < channels m
      then Some \<lparr>rows = rows m, cols = cols m, channels = 1,
                 mat_at = (\<lambda>i j k. mat_at m i j n)\<rparr>
      else None)"
  by (simp add: vector_at_def cv_split_def)

lemma RenderCpu_mask_plane_selected:
  assumes "1 < NumberOfChannels (Format mask_img)"
    and "sel = ALPHA \<longrightarrow> 3 < NumberOfChannels (Format mask_img)"
  shows "RenderCpu_mask_plane sel (MatView mask_img) =
           Some \<lparr>rows = Height mask_img, cols = Width mask_img, channels = 1,
                 mat_at = (\<lambda>i j k. PixelData mask_img i j (if sel = ALPHA then 3 else 0))\<rparr>"
  using assms by (simp add: RenderCpu_mask_plane_def vector_at_cv_split MatView_def)

text \<open>
  C3, as the specification states it: for every mask of more than one channel the weight
  plane is channel 3 when the selector is \<open>ALPHA\<close>. An RGB mask has more than one channel
  and no channel 3: with the selector \<open>ALPHA\<close> the CPU path finds no plane at index 3 of
  the split mask, and no output comes of the frame.
\<close>

theorem alpha_plane_of_rgb_mask_is_missing:
  "1 < NumberOfChannels (Format (channels_frame SRGB 1 1 [10, 20, 30]))
   \<and> RenderCpu same_size (opened_calculator (0, 0, 255) ALPHA)
        (cpu_context (Some (uniform_frame SRGB 1 1 255))
           (Some (channels_frame SRGB 1 1 [10, 20, 30])))
      = (IndexOutOfRange,
         cpu_context (Some (uniform_frame SRGB 1 1 255))
           (Some (channels_frame SRGB 1 1 [10, 20, 30])))
   \<and> Outputs_IMAGE
        (snd (RenderCpu same_size (opened_calculator (0, 0, 255) ALPHA)
                (cpu_context (Some (uniform_frame SRGB 1 1 255))
                   (Some (channels_frame SRGB 1 1 [10, 20, 30]))))) = []"
  by (simp add: RenderCpu_def RenderCpu_mask_plane_def vector_at_cv_split MatView_def
      uniform_frame_def channels_frame_def opened_calculator_def cpu_context_def)

text \<open>
  C3, amended: for a frame whose mask has more than one channel, and four channels when
  the selector is \<open>ALPHA\<close>, the output pixels of \<^verbatim>\<open>RenderCpu\<close> are computed with the weight
  byte taken from the resized plane of channel 3 of the mask when the selector is \<open>ALPHA\<close>,
  and of channel 0 for every other selector, \<open>RED\<close> and \<open>UNKNOWN\<close>. The program that
  \<^verbatim>\<open>InitGpu\<close> sets up has the mask component \<^verbatim>\<open>a\<close> for \<open>ALPHA\<close> and \<^verbatim>\<open>r\<close> otherwise, and
  its fragment shader takes the weight from component 3 of the sampled mask value for
  \<open>ALPHA\<close> and from component 0 otherwise. What happens to a mask with fewer than four
  channels under \<open>ALPHA\<close> is left out here.
\<close>

theorem mask_channel_selection:
  assumes "MASK cc = Some mask_img" and "IMAGE cc = Some input_img"
    and "NumberOfChannels (Format input_img) = 3"
    and "1 < NumberOfChannels (Format mask_img)"
    and "mask_channel calc = ALPHA \<longrightarrow> 3 < NumberOfChannels (Format mask_img)"
    and "i < Height input_img" and "j < Width input_img"
  shows "(\<exists>output_img.
            RenderCpu resize calc cc =
              (OkStatus,
               cc\<lparr>Outputs_IMAGE := Outputs_IMAGE cc @ [(output_img, InputTimestamp cc)],
                  allocations := allocations cc + 1\<rparr>)
            \<and> Vec3b_at (MatView output_img) i j =
                RenderCpu_pixel (color calc)
                  (mat_at
                     (resize
                        \<lparr>rows = Height mask_img, cols = Width mask_img, channels = 1,
                         mat_at = (\<lambda>i j k. PixelData mask_img i j
                                     (if mask_channel calc = ALPHA then 3 else 0))\<rparr>
                        (Width input_img, Height input_img)) i j 0)
                  (Vec3b_at (MatView input_img) i j))
         \<and> MASK_COMPONENT (InitGpu_program calc)
             = (if mask_channel calc = ALPHA then ''a'' else ''r'')
         \<and> frag_main (InitGpu_program calc) weight color1 =
             (let mix_value = vec4_nth weight (if mask_channel calc = ALPHA then 3 else 0)
                    * (vec4_nth color1 0 * 0.299 + vec4_nth color1 1 * 0.587
                       + vec4_nth color1 2 * 0.114)
              in Some (glsl_mix (vec4_nth color1 0) (Vec3_nth (color calc) 0 / 255) mix_value,
                       glsl_mix (vec4_nth color1 1) (Vec3_nth (color calc) 1 / 255) mix_value,
                       glsl_mix (vec4_nth color1 2) (Vec3_nth (color calc) 2 / 255) mix_value,
                       glsl_mix (vec4_nth color1 3) 1 mix_value))"
proof -
  define plane where
    "plane = \<lparr>rows = Height mask_img, cols = Width mask_img, channels = 1,
              mat_at = (\<lambda>i j k. PixelData mask_img i j
                          (if mask_channel calc = ALPHA then 3 else 0))\<rparr>"
  have sel: "RenderCpu_mask_plane (mask_channel calc) (MatView mask_img) = Some plane"
    unfolding plane_def by (rule RenderCpu_mask_plane_selected [OF assms(4,5)])
  obtain output_img where run: "RenderCpu resize calc cc =
      (OkStatus, cc\<lparr>Outputs_IMAGE := Outputs_IMAGE cc @ [(output_img, InputTimestamp cc)],
                    allocations := allocations cc + 1\<rparr>)"
    and px: "\<forall>i j k. i < Height input_img \<longrightarrow> j < Width input_img \<longrightarrow> k < 3 \<longrightarrow>
        PixelData output_img i j k =
          Vec3_nth (RenderCpu_pixel (color calc)
                      (mat_at (resize plane (Width input_img, Height input_img)) i j 0)
                      (Vec3b_at (MatView input_img) i j)) k"
    using RenderCpu_frame [OF assms(1-3) sel, of resize] by (elim exE conjE)
  have p: "PixelData output_img i j k =
      Vec3_nth (RenderCpu_pixel (color calc)
                  (mat_at (resize plane (Width input_img, Height input_img)) i j 0)
                  (Vec3b_at (MatView input_img) i j)) k" if "k < 3" for k
    using px assms(6,7) that by blast
  have "Vec3b_at (MatView output_img) i j =
      RenderCpu_pixel (color calc)
        (mat_at (resize plane (Width input_img, Height input_img)) i j 0)
        (Vec3b_at (MatView input_img) i j)"
    by (rule Vec3_eqI) (simp_all add: Vec3b_at_def MatView_def p)
  then have cpu: "\<exists>output_img.
            RenderCpu resize calc cc =
              (OkStatus,
               cc\<lparr>Outputs_IMAGE := Outputs_IMAGE cc @ [(output_img, InputTimestamp cc)],
                  allocations := allocations cc + 1\<rparr>)
            \<and> Vec3b_at (MatView output_img) i j =
                RenderCpu_pixel (color calc)
                  (mat_at (resize plane (Width input_img, Height input_img)) i j 0)
                  (Vec3b_at (MatView input_img) i j)"
    using run by (intro exI conjI)
  have comp: "MASK_COMPONENT (InitGpu_program calc)
      = (if mask_channel calc = ALPHA then ''a'' else ''r'')"
    by (cases "mask_channel calc") (simp_all add: InitGpu_program_def)
  show ?thesis
    using cpu comp unfolding plane_def
    by (simp only: frag_main_InitGpu_program Let_def simp_thms)
qed


theorem mask_channel_selection_witness:
  "MASK (cpu_context (Some (uniform_frame SRGB 1 1 255))
           (Some (channels_frame SRGBA 1 1 [0, 0, 0, 255])))
     = Some (channels_frame SRGBA 1 1 [0, 0, 0, 255])
   \<and> IMAGE (cpu_context (Some (uniform_frame SRGB 1 1 255))
              (Some (channels_frame SRGBA 1 1 [0, 0, 0, 255])))
     = Some (uniform_frame SRGB 1 1 255)
   \<and> NumberOfChannels (Format (uniform_frame SRGB 1 1 255)) = 3
   \<and> 1 < NumberOfChannels (Format (channels_frame SRGBA 1 1 [0, 0, 0, 255]))
   \<and> 3 < NumberOfChannels (Format (channels_frame SRGBA 1 1 [0, 0, 0, 255]))
   \<and> 0 < Height (uniform_frame SRGB 1 1 255) \<and> 0 < Width (uniform_frame SRGB 1 1 255)
   \<and> (\<exists>output_img.
         RenderCpu same_size (opened_calculator (0, 0, 255) ALPHA)
           (cpu_context (Some (uniform_frame SRGB 1 1 255))
              (Some (channels_frame SRGBA 1 1 [0, 0, 0, 255])))
         = (OkStatus,
            (cpu_context (Some (uniform_frame SRGB 1 1 255))
               (Some (channels_frame SRGBA 1 1 [0, 0, 0, 255])))
              \<lparr>Outputs_IMAGE := [(output_img, 0)], allocations := 1\<rparr>)
         \<and> Vec3b_at (MatView output_img) 0 0 = (0, 0, 255))
   \<and> (\<exists>output_img.
         RenderCpu same_size (opened_calculator (0, 0, 255) RED)
           (cpu_context (Some (uniform_frame SRGB 1 1 255))
              (Some (channels_frame SRGBA 1 1 [0, 0, 0, 255])))
         = (OkStatus,
            (cpu_context (Some (uniform_frame SRGB 1 1 255))
               (Some (channels_frame SRGBA 1 1 [0, 0, 0, 255])))
              \<lparr>Outputs_IMAGE := [(output_img, 0)], allocations := 1\<rparr>)
         \<and> Vec3b_at (MatView output_img) 0 0 = (255, 255, 255))
   \<and> MASK_COMPONENT (InitGpu_program (opened_calculator (0, 0, 255) ALPHA)) = ''a''
   \<and> MASK_COMPONENT (InitGpu_program (opened_calculator (0, 0, 255) RED)) = ''r''"
proof -
  let ?img = "uniform_frame SRGB 1 1 255"
  let ?mask = "channels_frame SRGBA 1 1 [0, 0, 0, 255]"
  let ?cc = "cpu_context (Some ?img) (Some ?mask)"
  let ?A = "opened_calculator (0, 0, 255) ALPHA"
  let ?R = "opened_calculator (0, 0, 255) RED"
  have h1: "MASK ?cc = Some ?mask" by (simp add: cpu_context_def)
  have h2: "IMAGE ?cc = Some ?img" by (simp add: cpu_context_def)
  have h3: "NumberOfChannels (Format ?img) = 3" by (simp add: uniform_frame_def)
  have h4: "1 < NumberOfChannels (Format ?mask)" by (simp add: channels_frame_def)
  have h5: "3 < NumberOfChannels (Format ?mask)" by (simp add: channels_frame_def)
  have h5A: "mask_channel ?A = ALPHA \<longrightarrow> 3 < NumberOfChannels (Format ?mask)"
    using h5 by simp
  have h5R: "mask_channel ?R = ALPHA \<longrightarrow> 3 < NumberOfChannels (Format ?mask)"
    using h5 by simp
  have h6: "0 < Height ?img" by (simp add: uniform_frame_def)
  have h7: "0 < Width ?img" by (simp add: uniform_frame_def)
  have c: "Outputs_IMAGE ?cc = []" "InputTimestamp ?cc = 0" "allocations ?cc = 0"
    by (simp_all add: cpu_context_def)
  have src: "Vec3b_at (MatView ?img) 0 0 = (255, 255, 255)"
    by (simp add: Vec3b_at_def MatView_def uniform_frame_def)
  have mA: "mat_at (same_size
        \<lparr>rows = Height ?mask, cols = Width ?mask, channels = 1,
         mat_at = (\<lambda>i j k. PixelData ?mask i j (if mask_channel ?A = ALPHA then 3 else 0))\<rparr>
        (Width ?img, Height ?img)) 0 0 0 = 255"
    by (simp add: same_size_def channels_frame_def opened_calculator_def)
  have mR: "mat_at (same_size
        \<lparr>rows = Height ?mask, cols = Width ?mask, channels = 1,
         mat_at = (\<lambda>i j k. PixelData ?mask i j (if mask_channel ?R = ALPHA then 3 else 0))\<rparr>
        (Width ?img, Height ?img)) 0 0 0 = 0"
    by (simp add: same_size_def channels_frame_def opened_calculator_def)
  have col: "color ?A = (0, 0, 255)" "color ?R = (0, 0, 255)"
    by (simp_all add: opened_calculator_def)
  have pA: "RenderCpu_pixel (0, 0, 255) 255 (255, 255, 255) = (0, 0, 255)"
    using RenderCpu_pixel_white [of "(0, 0, 255)"] by simp
  have pR: "RenderCpu_pixel (0, 0, 255) 0 (255, 255, 255) = (255, 255, 255)"
    by (rule RenderCpu_pixel_mask_0)
  note tA = mask_channel_selection [OF h1 h2 h3 h4 h5A h6 h7, of same_size]
  obtain outA where
    runA: "RenderCpu same_size ?A ?cc =
      (OkStatus, ?cc\<lparr>Outputs_IMAGE := Outputs_IMAGE ?cc @ [(outA, InputTimestamp ?cc)],
                     allocations := allocations ?cc + 1\<rparr>)"
    and pxA: "Vec3b_at (MatView outA) 0 0 =
      RenderCpu_pixel (color ?A)
        (mat_at (same_size
           \<lparr>rows = Height ?mask, cols = Width ?mask, channels = 1,
            mat_at = (\<lambda>i j k. PixelData ?mask i j (if mask_channel ?A = ALPHA then 3 else 0))\<rparr>
           (Width ?img, Height ?img)) 0 0 0)
        (Vec3b_at (MatView ?img) 0 0)"
    using tA [THEN conjunct1] by (elim exE conjE)
  have compA: "MASK_COMPONENT (InitGpu_program ?A)
      = (if mask_channel ?A = ALPHA then ''a'' else ''r'')"
    using tA [THEN conjunct2, THEN conjunct1] .
  note tR = mask_channel_selection [OF h1 h2 h3 h4 h5R h6 h7, of same_size]
  obtain outR where
    runR: "RenderCpu same_size ?R ?cc =
      (OkStatus, ?cc\<lparr>Outputs_IMAGE := Outputs_IMAGE ?cc @ [(outR, InputTimestamp ?cc)],
                     allocations := allocations ?cc + 1\<rparr>)"
    and pxR: "Vec3b_at (MatView outR) 0 0 =
      RenderCpu_pixel (color ?R)
        (mat_at (same_size
           \<lparr>rows = Height ?mask, cols = Width ?mask, channels = 1,
            mat_at = (\<lambda>i j k. PixelData ?mask i j (if mask_channel ?R = ALPHA then 3 else 0))\<rparr>
           (Width ?img, Height ?img)) 0 0 0)
        (Vec3b_at (MatView ?img) 0 0)"
    using tR [THEN conjunct1] by (elim exE conjE)
  have compR: "MASK_COMPONENT (InitGpu_program ?R)
      = (if mask_channel ?R = ALPHA then ''a'' else ''r'')"
    using tR [THEN conjunct2, THEN conjunct1] .
  have rA: "RenderCpu same_size ?A ?cc =
      (OkStatus, ?cc\<lparr>Outputs_IMAGE := [(outA, 0)], allocations := 1\<rparr>)"
    using runA unfolding c by simp
  have rR: "RenderCpu same_size ?R ?cc =
      (OkStatus, ?cc\<lparr>Outputs_IMAGE := [(outR, 0)], allocations := 1\<rparr>)"
    using runR unfolding c by simp
  have vA: "Vec3b_at (MatView outA) 0 0 = (0, 0, 255)"
    using pxA unfolding mA src col pA .
  have vR: "Vec3b_at (MatView outR) 0 0 = (255, 255, 255)"
    using pxR unfolding mR src col pR .
  have eA: "\<exists>output_img.
         RenderCpu same_size ?A ?cc
         = (OkStatus, ?cc\<lparr>Outputs_IMAGE := [(output_img, 0)], allocations := 1\<rparr>)
         \<and> Vec3b_at (MatView output_img) 0 0 = (0, 0, 255)"
    using rA vA by (intro exI conjI)
  have eR: "\<exists>output_img.
         RenderCpu same_size ?R ?cc
         = (OkStatus, ?cc\<lparr>Outputs_IMAGE := [(output_img, 0)], allocations := 1\<rparr>)
         \<and> Vec3b_at (MatView output_img) 0 0 = (255, 255, 255)"
    using rR vR by (intro exI conjI)
  have cA: "MASK_COMPONENT (InitGpu_program ?A) = ''a''"
    using compA by (simp add: opened_calculator_def)
  have cR: "MASK_COMPONENT (InitGpu_program ?R) = ''r''"
    using compR by (simp add: opened_calculator_def)
  from h1 h2 h3 h4 h5 h6 h7 eA eR cA cR show ?thesis by (intro conjI)
qed

text \<open>
  C4. The class comment admits an RGB mask. For an RGB mask and the selector \<open>ALPHA\<close> the
  split has three planes and \<^verbatim>\<open>channels[3]\<close> is past its end: the index is not within
  the bounds of the vector.
\<close>

theorem alpha_of_rgb_mask_is_out_of_range:
  "RenderCpu_mask_plane ALPHA (MatView (uniform_frame SRGB 1 1 255)) = None
   \<and> RenderCpu same_size (opened_calculator (0, 0, 255) ALPHA)
        (cpu_context (Some (uniform_frame SRGB 1 1 200)) (Some (uniform_frame SRGB 1 1 255)))
      = (IndexOutOfRange,
         cpu_context (Some (uniform_frame SRGB 1 1 200)) (Some (uniform_frame SRGB 1 1 255)))"
  by (simp add: RenderCpu_def RenderCpu_mask_plane_def vector_at_cv_split MatView_def
      uniform_frame_def opened_calculator_def cpu_context_def)

subsection \<open>Frames that are skipped or refused\<close>

text \<open>
  C5. When the mask packet of the frame is empty, \<^verbatim>\<open>RenderCpu\<close> and \<^verbatim>\<open>RenderGpu\<close>
  return the OK status and leave the context as it is: no packet is added to an output
  stream, and no output image or texture is created.
\<close>

theorem empty_mask_skips_frame:
  "(MASK cc = None \<longrightarrow> RenderCpu resize calc cc = (OkStatus, cc))
   \<and> (MASK_GPU cc = None \<longrightarrow> RenderGpu GlRender calc cc = (OkStatus, cc))"
  by (simp add: RenderCpu_def RenderGpu_def)

theorem empty_mask_skips_frame_witness:
  "MASK (cpu_context (Some (uniform_frame SRGB 1 1 200)) None) = None
   \<and> MASK_GPU (cpu_context (Some (uniform_frame SRGB 1 1 200)) None) = None
   \<and> RenderCpu same_size (opened_calculator (0, 0, 255) RED)
        (cpu_context (Some (uniform_frame SRGB 1 1 200)) None)
      = (OkStatus, cpu_context (Some (uniform_frame SRGB 1 1 200)) None)
   \<and> RenderGpu (\<lambda>p f m. f) (opened_calculator (0, 0, 255) RED)
        (cpu_context (Some (uniform_frame SRGB 1 1 200)) None)
      = (OkStatus, cpu_context (Some (uniform_frame SRGB 1 1 200)) None)"
proof -
  have h: "MASK (cpu_context (Some (uniform_frame SRGB 1 1 200)) None) = None"
    "MASK_GPU (cpu_context (Some (uniform_frame SRGB 1 1 200)) None) = None"
    by (simp_all add: cpu_context_def)
  show ?thesis
    using h empty_mask_skips_frame [of "cpu_context (Some (uniform_frame SRGB 1 1 200)) None"
        same_size "opened_calculator (0, 0, 255) RED" "\<lambda>p f m. f"]
    by simp
qed

text \<open>
  C6, as the specification states it: for every source image whose channel count is not 3
  the CPU path fails with an error. It does not when the mask packet of the frame is
  empty: the frame is skipped with the OK status before the channel count is looked at.
\<close>

theorem rgba_image_with_empty_mask_is_ok:
  "RenderCpu same_size (opened_calculator (0, 0, 255) RED)
        (cpu_context (Some (uniform_frame SRGBA 1 1 200)) None)
      = (OkStatus, cpu_context (Some (uniform_frame SRGBA 1 1 200)) None)"
  by (simp add: RenderCpu_def cpu_context_def)

text \<open>
  C6, amended: for every frame that has a mask packet and whose source image has a channel
  count other than 3, \<^verbatim>\<open>RenderCpu\<close> fails with the error of \<^verbatim>\<open>RET_CHECK\<close> and leaves
  the context as it is: no packet is added to the output stream and no output image has
  been created, the check standing before the allocation.
\<close>

theorem wrong_channel_count_fails:
  assumes "MASK cc = Some mask_img" and "IMAGE cc = Some input_img"
    and "NumberOfChannels (Format input_img) \<noteq> 3"
  shows "RenderCpu resize calc cc = (RetCheckFailure, cc)"
  using assms by (simp add: RenderCpu_def MatView_def)

theorem wrong_channel_count_fails_witness:
  "MASK (cpu_context (Some (uniform_frame SRGBA 1 1 200)) (Some (uniform_frame GRAY8 1 1 255)))
     = Some (uniform_frame GRAY8 1 1 255)
   \<and> IMAGE (cpu_context (Some (uniform_frame SRGBA 1 1 200)) (Some (uniform_frame GRAY8 1 1 255)))
     = Some (uniform_frame SRGBA 1 1 200)
   \<and> NumberOfChannels (Format (uniform_frame SRGBA 1 1 200)) \<noteq> 3
   \<and> RenderCpu same_size (opened_calculator (0, 0, 255) RED)
        (cpu_context (Some (uniform_frame SRGBA 1 1 200)) (Some (uniform_frame GRAY8 1 1 255)))
      = (RetCheckFailure,
         cpu_context (Some (uniform_frame SRGBA 1 1 200)) (Some (uniform_frame GRAY8 1 1 255)))"
proof -
  have h: "MASK (cpu_context (Some (uniform_frame SRGBA 1 1 200)) (Some (uniform_frame GRAY8 1 1 255)))
     = Some (uniform_frame GRAY8 1 1 255)"
    "IMAGE (cpu_context (Some (uniform_frame SRGBA 1 1 200)) (Some (uniform_frame GRAY8 1 1 255)))
     = Some (uniform_frame SRGBA 1 1 200)"
    "NumberOfChannels (Format (uniform_frame SRGBA 1 1 200)) \<noteq> 3"
    by (simp_all add: cpu_context_def uniform_frame_def)
  show ?thesis
    using h wrong_channel_count_fails [OF h, of same_size "opened_calculator (0, 0, 255) RED"]
    by simp
qed

end
